theory Spec2Isabelle
  imports Main "HOL-Library.Word" "HOL-Library.Sublist"
begin

section \<open>Strings (Go standard library functions used by package dsl)\<close>

text \<open>
  Go strings are byte sequences; \<open>string\<close> is a list of bytes. \<open>strings.HasPrefix\<close>,
  \<open>strings.HasSuffix\<close> and \<open>strings.TrimSuffix\<close> compare bytes.
\<close>

definition HasPrefix :: "string \<Rightarrow> string \<Rightarrow> bool" where
  "HasPrefix s p = (take (length p) s = p)"

definition HasSuffix :: "string \<Rightarrow> string \<Rightarrow> bool" where
  "HasSuffix s suf = (length suf \<le> length s \<and> drop (length s - length suf) s = suf)"

definition TrimSuffix :: "string \<Rightarrow> string \<Rightarrow> string" where
  "TrimSuffix s suf = (if HasSuffix s suf then take (length s - length suf) s else s)"

text \<open>
  \<open>strings.ToLower\<close>: on a string of ASCII bytes only, every \<open>A..Z\<close> becomes \<open>a..z\<close>
  and nothing else changes. A string with a byte \<open>\<ge> 0x80\<close> is mapped rune by rune through
  the Unicode tables of the Go runtime, which are no part of this repository: that mapping
  is the parameter \<open>U\<close>.
\<close>

definition ascii_lower :: "char \<Rightarrow> char" where
  "ascii_lower c =
     (case map_of (zip ''ABCDEFGHIJKLMNOPQRSTUVWXYZ'' ''abcdefghijklmnopqrstuvwxyz'') c of
        Some l \<Rightarrow> l
      | None \<Rightarrow> c)"

definition is_ascii :: "string \<Rightarrow> bool" where
  "is_ascii s = list_all (\<lambda>c. \<not> digit7 c) s"

definition ToLower :: "(string \<Rightarrow> string) \<Rightarrow> string \<Rightarrow> string" where
  "ToLower U s = (if is_ascii s then map ascii_lower s else U s)"

section \<open>Errors\<close>

text \<open>
  Every \<open>fmt.Errorf\<close> of the search compiler and of \<open>FetchMessages\<close> is a constructor;
  \<open>Wrapped msg e\<close> is \<open>fmt.Errorf("msg: %w", e)\<close>. \<open>LibError\<close> is an error handed up by
  the IMAP client library.
\<close>

datatype error =
    EmptyConditionsList string
  | NotRequiresCondition
  | UnsupportedOperator string
  | NotTooManyConditions nat
  | CouldNotParseDate string
  | InvalidSizeFormat string
  | InvalidSizeNumber string
  | InvalidSizeUnit string
  | ErrSyntax
  | ErrRange
  | LibError string
  | FailedToFetchBody
  | IndexOutOfRange
  | InvalidFormat string
  | NoOutputFields
  | NegativeLimit
  | InvalidMimePartsMode string
  | MimePartsTypesRequired
  | InvalidDateField string error
  | InvalidSizeField string error
  | Wrapped string error

section \<open>parseSize\<close>

definition isDigit :: "char \<Rightarrow> bool" where
  "isDigit c = (c \<in> set ''0123456789'')"

definition digit_val :: "char \<Rightarrow> nat" where
  "digit_val c =
     (case map_of (zip ''0123456789'' [0, 1, 2, 3, 4, 5, 6, 7, 8, 9]) c of
        Some d \<Rightarrow> d
      | None \<Rightarrow> 0)"

definition dec_value :: "string \<Rightarrow> nat" where
  "dec_value ds = foldl (\<lambda>a c. 10 * a + digit_val c) 0 ds"

text \<open>
  \<open>strconv.ParseInt(s, 10, 64)\<close>: an optional sign, then one or more decimal digits;
  a value outside the range of \<open>int64\<close> is a range error. The result is the 64-bit word,
  read as signed by \<open>sint\<close>.
\<close>

definition ParseInt :: "string \<Rightarrow> error + 64 word" where
  "ParseInt s =
     (let (neg, ds) =
            (case s of
               [] \<Rightarrow> (False, s)
             | c # r \<Rightarrow> if c = CHR ''+'' then (False, r)
                        else if c = CHR ''-'' then (True, r) else (False, s))
      in if ds = [] \<or> \<not> list_all isDigit ds then Inl ErrSyntax
         else let n = dec_value ds
              in if neg then (if n > 2 ^ 63 then Inl ErrRange else Inr (- word_of_nat n))
                 else (if n \<ge> 2 ^ 63 then Inl ErrRange else Inr (word_of_nat n)))"

text \<open>
  \<open>regexp.MustCompile(`^(\d+)([BKMG])?$`).FindStringSubmatch\<close>: \<open>\d\<close> is an ASCII digit and
  \<open>$\<close> is the end of the text. The digits are matched greedily, and what is left must be
  empty or one of the four unit letters. The result is the pair of the two groups.
\<close>

definition FindStringSubmatch_size :: "string \<Rightarrow> (string \<times> string) option" where
  "FindStringSubmatch_size s =
     (let ds = takeWhile isDigit s; r = dropWhile isDigit s
      in if ds = [] then None
         else if r = [] then Some (ds, r)
         else if r = ''B'' \<or> r = ''K'' \<or> r = ''M'' \<or> r = ''G'' then Some (ds, r)
         else None)"

definition parseSize :: "string \<Rightarrow> error + 64 word" where
  "parseSize sizeStr =
     (case FindStringSubmatch_size sizeStr of
        None \<Rightarrow> Inl (InvalidSizeFormat sizeStr)
      | Some (num, unit) \<Rightarrow>
          (case ParseInt num of
             Inl _ \<Rightarrow> Inl (InvalidSizeNumber num)
           | Inr sz \<Rightarrow>
               if unit = ''B'' \<or> unit = [] then Inr sz
               else if unit = ''K'' then Inr (sz * 1024)
               else if unit = ''M'' then Inr (sz * (1024 * 1024))
               else if unit = ''G'' then Inr (sz * (1024 * 1024 * 1024))
               else Inl (InvalidSizeUnit unit)))"

text \<open>
  The language of the regular expression and the factor of each unit, as the specification
  words them: one or more digits, then nothing or one of the letters \<open>B\<close>, \<open>K\<close>, \<open>M\<close>,
  \<open>G\<close>; factors 1, 1024, 1024^2, 1024^3.
\<close>

definition size_units :: "string set" where
  "size_units = {[], ''B'', ''K'', ''M'', ''G''}"

definition spec_size_syntax :: "string \<Rightarrow> bool" where
  "spec_size_syntax s =
     (\<exists>ds u. s = ds @ u \<and> ds \<noteq> [] \<and> list_all isDigit ds \<and> u \<in> size_units)"

definition spec_unit_factor :: "string \<Rightarrow> nat" where
  "spec_unit_factor u =
     (if u = ''K'' then 1024 else if u = ''M'' then 1024 ^ 2
      else if u = ''G'' then 1024 ^ 3 else 1)"

section \<open>convertToIMAPFlag\<close>

definition standardFlags :: "(string \<times> string) list" where
  "standardFlags =
     [(''seen'', CHR 0x5C # ''Seen''),
      (''answered'', CHR 0x5C # ''Answered''),
      (''flagged'', CHR 0x5C # ''Flagged''),
      (''deleted'', CHR 0x5C # ''Deleted''),
      (''draft'', CHR 0x5C # ''Draft''),
      (''recent'', CHR 0x5C # ''Recent''),
      (''important'', ''$Important'')]"

definition convertToIMAPFlag :: "(string \<Rightarrow> string) \<Rightarrow> string \<Rightarrow> string" where
  "convertToIMAPFlag U flag =
     (if HasPrefix flag [CHR 0x5C] \<or> HasPrefix flag ''$'' then flag
      else (case map_of standardFlags (ToLower U flag) of
              Some imapFlag \<Rightarrow> imapFlag
            | None \<Rightarrow> flag))"

section \<open>ContentField.ShouldInclude\<close>

record ContentField =
  Type :: string
  MaxLength :: int
  MinLength :: int
  Mode :: string
  Types :: "string list"
  ShowTypes :: bool
  ShowContent :: bool

fun types_match :: "string list \<Rightarrow> string \<Rightarrow> bool" where
  "types_match [] mediaType = False"
| "types_match (allowedType # rest) mediaType =
     (if HasSuffix allowedType ''/*'' then
        (if HasPrefix mediaType (TrimSuffix allowedType ''/*'' @ ''/'') then True
         else types_match rest mediaType)
      else if mediaType = allowedType then True
      else types_match rest mediaType)"

definition ShouldInclude :: "ContentField \<Rightarrow> string \<Rightarrow> bool" where
  "ShouldInclude c mediaType =
     (if Mode c = ''text_only'' then HasPrefix mediaType ''text/plain''
      else if Mode c = ''filter'' then
        (if length (Types c) = 0 then True else types_match (Types c) mediaType)
      else True)"

section \<open>OutputConfig and its validation\<close>

record Field =
  Name :: string
  Content :: "ContentField option"

text \<open>
  \<open>Fields []interface{}\<close>: after unmarshalling an entry holds a \<open>Field\<close> or the raw YAML
  value, which \<open>Validate\<close> skips (the type assertion \<open>fieldInterface.(Field)\<close> fails).
\<close>

datatype field_value = FieldValue Field | RawValue

record OutputConfig =
  Format :: string
  Limit :: int
  Offset :: int
  AfterUID :: "32 word"
  BeforeUID :: "32 word"
  Fields :: "field_value list"

fun validate_fields :: "field_value list \<Rightarrow> error option" where
  "validate_fields [] = None"
| "validate_fields (RawValue # rest) = validate_fields rest"
| "validate_fields (FieldValue field # rest) =
     (case Content field of
        None \<Rightarrow> validate_fields rest
      | Some c \<Rightarrow>
          if Name field = ''mime_parts'' then
            (if Mode c \<noteq> [] \<and> Mode c \<noteq> ''text_only'' \<and> Mode c \<noteq> ''full'' \<and> Mode c \<noteq> ''filter''
             then Some (InvalidMimePartsMode (Mode c))
             else if Mode c = ''filter'' \<and> length (Types c) = 0 then Some MimePartsTypesRequired
             else validate_fields rest)
          else validate_fields rest)"

definition OutputConfig_Validate :: "OutputConfig \<Rightarrow> error option" where
  "OutputConfig_Validate o' =
     (if Format o' \<noteq> [] \<and> Format o' \<noteq> ''json'' \<and> Format o' \<noteq> ''text'' \<and> Format o' \<noteq> ''table''
      then Some (InvalidFormat (Format o'))
      else if length (Fields o') = 0 then Some NoOutputFields
      else if Limit o' < 0 then Some NegativeLimit
      else validate_fields (Fields o'))"

section \<open>Search configuration and native search criteria\<close>

record HeaderCriteria =
  hdr_Name :: string
  hdr_Value :: string

record FlagCriteria =
  Has :: "string list"
  NotHas :: "string list"

record SizeCriteria =
  LargerThan :: string
  SmallerThan :: string

text \<open>
  \<open>SearchConfig\<close> is one Go struct whose \<open>Conditions\<close> are \<open>ComplexSearchConfig\<close> values,
  each an inlined \<open>SearchConfig\<close>. The scalar fields are the record \<open>leaf_fields\<close>; the
  datatype adds \<open>Operator\<close> (a string, empty when not set) and the nested \<open>Conditions\<close>.
\<close>

record leaf_fields =
  Since :: string
  Before :: string
  On :: string
  WithinDays :: int
  From :: string
  To :: string
  Cc :: string
  Bcc :: string
  Subject :: string
  SubjectContains :: string
  Header :: "HeaderCriteria option"
  BodyContains :: string
  Text :: string
  Flags :: "FlagCriteria option"
  Size :: "SizeCriteria option"

datatype SearchConfig =
  SearchConfig (leaf: leaf_fields) (Operator: string) (Conditions: "SearchConfig list")

text \<open>
  \<open>imap.SearchCriteria\<close> of the go-imap library, with the fields this package writes;
  \<open>'t\<close> is \<open>time.Time\<close>. A \<open>UIDSet\<close> is a list of ranges \<open>start:stop\<close>, stop \<open>0\<close> standing
  for \<open>*\<close>.
\<close>

type_synonym UIDSet = "(32 word \<times> 32 word) list"

text \<open>
  \<open>UIDSet.AddRange(start, stop)\<close> of go-imap on an empty set, which is the only way this
  package calls it: the library exchanges the two arguments when \<open>stop\<close> is below \<open>start\<close>
  and is not \<open>0\<close>, or when \<open>start\<close> is \<open>0\<close>, and the set then holds that one range.
\<close>

definition AddRange_empty :: "32 word \<Rightarrow> 32 word \<Rightarrow> UIDSet" where
  "AddRange_empty start stop =
     (if (stop < start \<and> stop \<noteq> 0) \<or> start = 0 then [(stop, start)] else [(start, stop)])"

record 't criteria_fields =
  crit_UID :: "UIDSet list"
  crit_Since :: 't
  crit_Before :: 't
  crit_Header :: "(string \<times> string) list"
  crit_Body :: "string list"
  crit_Text :: "string list"
  crit_Flag :: "string list"
  crit_NotFlag :: "string list"
  crit_Larger :: "64 word"
  crit_Smaller :: "64 word"

datatype 't SearchCriteria =
  SearchCriteria (crit: "'t criteria_fields") (crit_Not: "'t SearchCriteria list")
    (crit_Or: "('t SearchCriteria \<times> 't SearchCriteria) list")

record SearchOptions =
  ReturnAll :: bool
  ReturnCount :: bool

text \<open>
  What the compiler calls outside this repository: the \<open>time\<close> package (\<open>time_zero\<close> is
  \<open>time.Time{}\<close>, \<open>time_Parse layout value\<close> is \<open>time.Parse\<close> with \<open>None\<close> for an error,
  \<open>start_of_day t\<close> is \<open>time.Date(t.Year(), t.Month(), t.Day(), 0, 0, 0, 0, t.Location())\<close>,
  \<open>time_Now\<close> is the clock reading), \<open>SearchCriteria.And\<close> of go-imap, and the Unicode
  lower-casing behind \<open>strings.ToLower\<close>.
\<close>

record 't lib =
  time_zero :: 't
  time_Parse :: "string \<Rightarrow> string \<Rightarrow> 't option"
  start_of_day :: "'t \<Rightarrow> 't"
  AddDate :: "'t \<Rightarrow> int \<Rightarrow> int \<Rightarrow> int \<Rightarrow> 't"
  time_Now :: 't
  crit_And :: "'t SearchCriteria \<Rightarrow> 't SearchCriteria \<Rightarrow> 't SearchCriteria"
  unicode_lower :: "string \<Rightarrow> string"

definition empty_fields :: "'t lib \<Rightarrow> 't criteria_fields" where
  "empty_fields L =
     \<lparr>crit_UID = [], crit_Since = time_zero L, crit_Before = time_zero L, crit_Header = [],
      crit_Body = [], crit_Text = [], crit_Flag = [], crit_NotFlag = [], crit_Larger = 0,
      crit_Smaller = 0\<rparr>"

definition empty_options :: SearchOptions where
  "empty_options = \<lparr>ReturnAll = False, ReturnCount = False\<rparr>"

subsection \<open>parseDate\<close>

fun parse_formats :: "'t lib \<Rightarrow> string list \<Rightarrow> string \<Rightarrow> error + 't" where
  "parse_formats L [] dateStr = Inl (CouldNotParseDate dateStr)"
| "parse_formats L (format # formats) dateStr =
     (case time_Parse L format dateStr of
        Some t \<Rightarrow> Inr t
      | None \<Rightarrow> parse_formats L formats dateStr)"

definition parseDate :: "'t lib \<Rightarrow> string \<Rightarrow> error + 't" where
  "parseDate L dateStr =
     (case time_Parse L ''2006-01-02T15:04:05Z07:00'' dateStr of
        Some t \<Rightarrow> Inr t
      | None \<Rightarrow>
          (case time_Parse L ''2006-01-02'' dateStr of
             Some t \<Rightarrow> Inr t
           | None \<Rightarrow>
               parse_formats L
                 [''2006/01/02'', ''01/02/2006'', ''02/01/2006'', ''Jan 2, 2006'', ''2 Jan 2006'',
                  ''02 Jan 06 15:04 MST'', ''Mon, 02 Jan 2006 15:04:05 MST'']
                 dateStr))"

subsection \<open>BuildSearchCriteria: a condition without operator\<close>

text \<open>
  The body of \<open>BuildSearchCriteria\<close> after the operator check, one definition for each
  group of statements. Each takes the criteria built so far and returns them updated, or
  the error the function returns at that point.
\<close>

definition date_criteria ::
  "'t lib \<Rightarrow> leaf_fields \<Rightarrow> 't criteria_fields \<Rightarrow> error + 't criteria_fields" where
  "date_criteria L config criteria =
     (case (if Since config \<noteq> [] then
              (case parseDate L (Since config) of
                 Inl err \<Rightarrow> Inl (InvalidDateField ''since'' err)
               | Inr since \<Rightarrow> Inr (criteria\<lparr>crit_Since := since\<rparr>))
            else Inr criteria) of
        Inl err \<Rightarrow> Inl err
      | Inr c1 \<Rightarrow>
     (case (if Before config \<noteq> [] then
              (case parseDate L (Before config) of
                 Inl err \<Rightarrow> Inl (InvalidDateField ''before'' err)
               | Inr before \<Rightarrow> Inr (c1\<lparr>crit_Before := before\<rparr>))
            else Inr c1) of
        Inl err \<Rightarrow> Inl err
      | Inr c2 \<Rightarrow>
     (case (if On config \<noteq> [] then
              (case parseDate L (On config) of
                 Inl err \<Rightarrow> Inl (InvalidDateField ''on'' err)
               | Inr on \<Rightarrow>
                   Inr (c2\<lparr>crit_Since := start_of_day L on,
                           crit_Before := AddDate L (start_of_day L on) 0 0 1\<rparr>))
            else Inr c2) of
        Inl err \<Rightarrow> Inl err
      | Inr c3 \<Rightarrow>
          Inr (if WithinDays config > 0 then
                 c3\<lparr>crit_Since :=
                      start_of_day L (AddDate L (time_Now L) 0 0 (- WithinDays config))\<rparr>
               else c3))))"

definition header_criteria :: "leaf_fields \<Rightarrow> 't criteria_fields \<Rightarrow> 't criteria_fields" where
  "header_criteria config criteria =
     (let h1 = (if From config \<noteq> [] then [(''From'', From config)] else []);
          h2 = (if To config \<noteq> [] then [(''To'', To config)] else []);
          h3 = (if Cc config \<noteq> [] then [(''Cc'', Cc config)] else []);
          h4 = (if Bcc config \<noteq> [] then [(''Bcc'', Bcc config)] else []);
          h5 = (if Subject config \<noteq> [] then [(''Subject'', Subject config)] else []);
          h6 = (if SubjectContains config \<noteq> [] then [(''Subject'', SubjectContains config)]
                else []);
          h7 = (case Header config of
                  None \<Rightarrow> []
                | Some h \<Rightarrow> if hdr_Name h \<noteq> [] then [(hdr_Name h, hdr_Value h)] else [])
      in criteria\<lparr>crit_Header := crit_Header criteria @ h1 @ h2 @ h3 @ h4 @ h5 @ h6 @ h7\<rparr>)"

definition content_criteria :: "leaf_fields \<Rightarrow> 't criteria_fields \<Rightarrow> 't criteria_fields" where
  "content_criteria config criteria =
     (let c1 = (if BodyContains config \<noteq> [] then criteria\<lparr>crit_Body := [BodyContains config]\<rparr>
                else criteria)
      in if Text config \<noteq> [] then c1\<lparr>crit_Text := [Text config]\<rparr> else c1)"

definition flag_criteria ::
  "'t lib \<Rightarrow> leaf_fields \<Rightarrow> 't criteria_fields \<Rightarrow> 't criteria_fields" where
  "flag_criteria L config criteria =
     (case Flags config of
        None \<Rightarrow> criteria
      | Some fl \<Rightarrow>
          criteria
            \<lparr>crit_Flag := crit_Flag criteria @ map (convertToIMAPFlag (unicode_lower L)) (Has fl),
             crit_NotFlag :=
               crit_NotFlag criteria @ map (convertToIMAPFlag (unicode_lower L)) (NotHas fl)\<rparr>)"

definition size_criteria :: "leaf_fields \<Rightarrow> 't criteria_fields \<Rightarrow> error + 't criteria_fields" where
  "size_criteria config criteria =
     (case Size config of
        None \<Rightarrow> Inr criteria
      | Some sz \<Rightarrow>
          (case (if LargerThan sz \<noteq> [] then
                   (case parseSize (LargerThan sz) of
                      Inl err \<Rightarrow> Inl (InvalidSizeField ''larger_than'' err)
                    | Inr n \<Rightarrow> Inr (criteria\<lparr>crit_Larger := n\<rparr>))
                 else Inr criteria) of
             Inl err \<Rightarrow> Inl err
           | Inr c1 \<Rightarrow>
               (if SmallerThan sz \<noteq> [] then
                  (case parseSize (SmallerThan sz) of
                     Inl err \<Rightarrow> Inl (InvalidSizeField ''smaller_than'' err)
                   | Inr n \<Rightarrow> Inr (c1\<lparr>crit_Smaller := n\<rparr>))
                else Inr c1)))"

definition uid_criteria :: "OutputConfig option \<Rightarrow> 't criteria_fields \<Rightarrow> 't criteria_fields" where
  "uid_criteria outputConfig criteria =
     (case outputConfig of
        None \<Rightarrow> criteria
      | Some oc \<Rightarrow>
          if AfterUID oc > 0 \<or> BeforeUID oc > 0 then
            (let uidSet =
                   (if AfterUID oc > 0 \<and> BeforeUID oc > 0
                    then AddRange_empty (AfterUID oc + 1) (BeforeUID oc - 1)
                    else if AfterUID oc > 0 then AddRange_empty (AfterUID oc + 1) 0
                    else if BeforeUID oc > 0 then AddRange_empty 1 (BeforeUID oc - 1)
                    else [])
             in criteria\<lparr>crit_UID := [uidSet]\<rparr>)
          else criteria)"

definition pagination_options :: "OutputConfig option \<Rightarrow> SearchOptions \<Rightarrow> SearchOptions" where
  "pagination_options outputConfig options =
     (case outputConfig of
        None \<Rightarrow> options
      | Some oc \<Rightarrow>
          if Limit oc > 0 then options\<lparr>ReturnAll := True, ReturnCount := True\<rparr> else options)"

definition flat_criteria ::
  "'t lib \<Rightarrow> leaf_fields \<Rightarrow> OutputConfig option
     \<Rightarrow> error + ('t SearchCriteria \<times> SearchOptions option)" where
  "flat_criteria L config outputConfig =
     (case date_criteria L config (empty_fields L) of
        Inl err \<Rightarrow> Inl err
      | Inr c1 \<Rightarrow>
          (case size_criteria config
                  (flag_criteria L config (content_criteria config (header_criteria config c1))) of
             Inl err \<Rightarrow> Inl err
           | Inr c2 \<Rightarrow>
               Inr (SearchCriteria (uid_criteria outputConfig c2) [] [],
                    Some (pagination_options outputConfig empty_options))))"

subsection \<open>Conditions with an operator\<close>

text \<open>
  Modelled from the spec: the second component of the pair built for the last condition of
  an odd-length list. Line 508 of the source, \<open>orPair := [2]imap.SearchCriteria{*c1,\<close>, breaks
  off after the first component; section 4.1 of the specification says that the trailing
  single child is paired with itself.
\<close>

definition trailing_second :: "'t SearchCriteria \<Rightarrow> 't SearchCriteria" where
  "trailing_second c1 = c1"

definition append_Or ::
  "'t SearchCriteria \<Rightarrow> 't SearchCriteria \<times> 't SearchCriteria \<Rightarrow> 't SearchCriteria" where
  "append_Or resultCriteria orPair =
     SearchCriteria (crit resultCriteria) (crit_Not resultCriteria)
       (crit_Or resultCriteria @ [orPair])"

text \<open>
  \<open>and_loop\<close> is the \<open>for\<close> loop of \<open>buildAndCondition\<close> over the conditions after the first,
  \<open>or_loop\<close> the loop of \<open>buildOrCondition\<close> over the pairs: its flag says whether the
  iteration is the one with \<open>i == 0\<close>, and \<open>options\<close> is a pointer that starts as \<open>nil\<close>
  (\<open>None\<close>). The search options that \<open>buildComplexSearchCriteria\<close> prepares from the output
  configuration are a local value that no branch returns, so they do not appear.
\<close>

function (sequential) BuildSearchCriteria ::
    "'t lib \<Rightarrow> SearchConfig \<Rightarrow> OutputConfig option
       \<Rightarrow> error + ('t SearchCriteria \<times> SearchOptions option)"
  and buildComplexSearchCriteria ::
    "'t lib \<Rightarrow> SearchConfig \<Rightarrow> OutputConfig option
       \<Rightarrow> error + ('t SearchCriteria \<times> SearchOptions option)"
  and buildAndCondition ::
    "'t lib \<Rightarrow> SearchConfig list \<Rightarrow> OutputConfig option
       \<Rightarrow> error + ('t SearchCriteria \<times> SearchOptions option)"
  and and_loop ::
    "'t lib \<Rightarrow> SearchConfig list \<Rightarrow> 't SearchCriteria \<Rightarrow> error + 't SearchCriteria"
  and buildOrCondition ::
    "'t lib \<Rightarrow> SearchConfig list \<Rightarrow> OutputConfig option
       \<Rightarrow> error + ('t SearchCriteria \<times> SearchOptions option)"
  and or_loop ::
    "'t lib \<Rightarrow> SearchConfig list \<Rightarrow> bool \<Rightarrow> OutputConfig option \<Rightarrow> 't SearchCriteria
       \<Rightarrow> SearchOptions option \<Rightarrow> error + ('t SearchCriteria \<times> SearchOptions option)"
  and buildNotCondition ::
    "'t lib \<Rightarrow> SearchConfig \<Rightarrow> OutputConfig option
       \<Rightarrow> error + ('t SearchCriteria \<times> SearchOptions option)"
  and buildSingleCondition ::
    "'t lib \<Rightarrow> SearchConfig \<Rightarrow> OutputConfig option
       \<Rightarrow> error + ('t SearchCriteria \<times> SearchOptions option)"
where
  "BuildSearchCriteria L (SearchConfig config operator conditions) outputConfig =
     (if operator \<noteq> [] then
        (if length conditions = 0 then
           (if operator = ''and'' then Inl (EmptyConditionsList ''AND'')
            else if operator = ''or'' then Inl (EmptyConditionsList ''OR'')
            else if operator = ''not'' then Inl NotRequiresCondition
            else Inl (UnsupportedOperator operator))
         else buildComplexSearchCriteria L (SearchConfig config operator conditions) outputConfig)
      else flat_criteria L config outputConfig)"
| "buildComplexSearchCriteria L (SearchConfig config operator conditions) outputConfig =
     (if operator = ''and'' then buildAndCondition L conditions outputConfig
      else if operator = ''or'' then buildOrCondition L conditions outputConfig
      else if operator = ''not'' then
        (case conditions of
           [] \<Rightarrow> Inl NotRequiresCondition
         | condition # rest \<Rightarrow>
             if length conditions > 1 then Inl (NotTooManyConditions (length conditions))
             else buildNotCondition L condition outputConfig)
      else Inl (UnsupportedOperator operator))"
| "buildAndCondition L [] outputConfig = Inl (EmptyConditionsList ''AND'')"
| "buildAndCondition L (condition # rest) outputConfig =
     (case buildSingleCondition L condition outputConfig of
        Inl err \<Rightarrow> Inl err
      | Inr (mainCriteria, options) \<Rightarrow>
          (case and_loop L rest mainCriteria of
             Inl err \<Rightarrow> Inl err
           | Inr mainCriteria' \<Rightarrow> Inr (mainCriteria', options)))"
| "and_loop L [] mainCriteria = Inr mainCriteria"
| "and_loop L (condition # rest) mainCriteria =
     (case buildSingleCondition L condition None of
        Inl err \<Rightarrow> Inl err
      | Inr (subCriteria, _) \<Rightarrow> and_loop L rest (crit_And L mainCriteria subCriteria))"
| "buildOrCondition L [] outputConfig = Inl (EmptyConditionsList ''OR'')"
| "buildOrCondition L [condition] outputConfig = buildSingleCondition L condition outputConfig"
| "buildOrCondition L (condition # condition' # rest) outputConfig =
     or_loop L (condition # condition' # rest) True outputConfig
       (SearchCriteria (empty_fields L) [] []) None"
| "or_loop L [] first outputConfig resultCriteria options = Inr (resultCriteria, options)"
| "or_loop L [condition] first outputConfig resultCriteria options =
     (case buildSingleCondition L condition None of
        Inl err \<Rightarrow> Inl err
      | Inr (c1, opts) \<Rightarrow>
          Inr (append_Or resultCriteria (c1, trailing_second c1),
               if first \<and> outputConfig \<noteq> None then opts else options))"
| "or_loop L (condition # condition' # rest) first outputConfig resultCriteria options =
     (case buildSingleCondition L condition None of
        Inl err \<Rightarrow> Inl err
      | Inr (c1, opts) \<Rightarrow>
          (case buildSingleCondition L condition' None of
             Inl err \<Rightarrow> Inl err
           | Inr (c2, _) \<Rightarrow>
               or_loop L rest False outputConfig (append_Or resultCriteria (c1, c2))
                 (if first \<and> outputConfig \<noteq> None then opts else options)))"
| "buildNotCondition L condition outputConfig =
     (case buildSingleCondition L condition outputConfig of
        Inl err \<Rightarrow> Inl err
      | Inr (subCriteria, options) \<Rightarrow>
          Inr (SearchCriteria (empty_fields L) [subCriteria] [], options))"
| "buildSingleCondition L (SearchConfig config operator conditions) outputConfig =
     (if operator \<noteq> [] \<and> length conditions > 0
      then buildComplexSearchCriteria L (SearchConfig config operator conditions) outputConfig
      else BuildSearchCriteria L (SearchConfig config operator conditions) outputConfig)"
  by pat_completeness auto

text \<open>
  Every call goes to a condition inside the operand or to the same operand in a function
  further down the call chain \<open>buildNotCondition\<close>, \<open>buildSingleCondition\<close>,
  \<open>BuildSearchCriteria\<close>, \<open>buildComplexSearchCriteria\<close>.
\<close>

termination
  by (relation "measure (\<lambda>x. case x of
        Inl (Inl (Inl (L, c, oc))) \<Rightarrow> 5 * size c + 1
      | Inl (Inl (Inr (L, c, oc))) \<Rightarrow> 5 * size c
      | Inl (Inr (Inl (L, cs, oc))) \<Rightarrow> 5 * size_list size cs
      | Inl (Inr (Inr (L, cs, m))) \<Rightarrow> 5 * size_list size cs
      | Inr (Inl (Inl (L, cs, oc))) \<Rightarrow> 5 * size_list size cs + 1
      | Inr (Inl (Inr (L, cs, first, oc, res, opts))) \<Rightarrow> 5 * size_list size cs
      | Inr (Inr (Inl (L, c, oc))) \<Rightarrow> 5 * size c + 3
      | Inr (Inr (Inr (L, c, oc))) \<Rightarrow> 5 * size c + 2)") auto

text \<open>
  The pairing of the specification, on the list of the compiled children: indices
  \<open>(0,1)\<close>, \<open>(2,3)\<close>, and so on, a trailing single child paired with itself.
\<close>

fun spec_or_pairs :: "'a list \<Rightarrow> ('a \<times> 'a) list" where
  "spec_or_pairs [] = []"
| "spec_or_pairs [a] = [(a, a)]"
| "spec_or_pairs (a # b # rest) = (a, b) # spec_or_pairs rest"

subsection \<open>Example inputs\<close>

definition example_lib :: "unit lib" where
  "example_lib =
     \<lparr>time_zero = (), time_Parse = (\<lambda>layout v. None), start_of_day = (\<lambda>t. t),
      AddDate = (\<lambda>t y m d. t), time_Now = (),
      crit_And = (\<lambda>a b. SearchCriteria (crit a) (crit_Not a @ crit_Not b) (crit_Or a @ crit_Or b)),
      unicode_lower = (\<lambda>s. s)\<rparr>"

definition no_fields :: leaf_fields where
  "no_fields =
     \<lparr>Since = [], Before = [], On = [], WithinDays = 0, From = [], To = [], Cc = [], Bcc = [],
      Subject = [], SubjectContains = [], Header = None, BodyContains = [], Text = [],
      Flags = None, Size = None\<rparr>"

definition from_condition :: "string \<Rightarrow> SearchConfig" where
  "from_condition a = SearchConfig (no_fields\<lparr>From := a\<rparr>) [] []"

definition from_criteria :: "string \<Rightarrow> unit SearchCriteria" where
  "from_criteria a =
     SearchCriteria ((empty_fields example_lib)\<lparr>crit_Header := [(''From'', a)]\<rparr>) [] []"

definition example_output :: OutputConfig where
  "example_output =
     \<lparr>Format = ''json'', Limit = 5, Offset = 3, AfterUID = 100, BeforeUID = 200,
      Fields = [FieldValue \<lparr>Name = ''subject'', Content = None\<rparr>]\<rparr>"

section \<open>FetchMessages\<close>

record Rule =
  rule_Name :: string
  Description :: string
  Search :: SearchConfig
  Output :: OutputConfig

text \<open>
  The IMAP client library. A sequence set is kept as the list of the \<open>AddNum\<close> and
  \<open>AddRange\<close> calls made on it, in order. \<open>SearchData\<close> has the identifier list of
  \<open>AllSeqNums()\<close> and the count the server reports. A fetched message has its sequence
  number, its UID and its body structure \<open>'bs\<close>.
\<close>

datatype seq_entry = Num "32 word" | Range "32 word" "32 word"

type_synonym SeqSet = "seq_entry list"

record SearchData =
  AllSeqNums :: "32 word list"
  Count :: "32 word"

record 'bs FetchMessageBuffer =
  SeqNum :: "32 word"
  UID :: "32 word"
  BodyStructure :: 'bs

text \<open>
  \<open>imap.FetchOptions\<close>: the flags \<open>UID\<close> and \<open>BodyStructure\<close>, the requested body sections
  (each the part path of an \<open>imap.FetchItemBodySection\<close>), and the items \<open>BuildFetchOptions\<close>
  asks for besides.
\<close>

record FetchOptions =
  fetch_UID :: bool
  fetch_BodyStructure :: bool
  fetch_BodySection :: "int list list"
  fetch_items :: "string list"

text \<open>
  One item of a streamed fetch response: a body section with its part path and its
  literal (\<open>None\<close> for a nil literal, \<open>Some (Inl err)\<close> when reading it fails), or any other
  item.
\<close>

datatype fetch_item = BodySectionItem "int list" "(error + string) option" | OtherItem

text \<open>
  The client answers a search, a collected fetch (\<open>client.Fetch(...).Collect()\<close>) and a
  streamed fetch, which gives the messages with their items and the result of \<open>Close()\<close>.
\<close>

record ('t, 'bs) client =
  client_Search :: "'t SearchCriteria \<Rightarrow> SearchOptions option \<Rightarrow> error + SearchData"
  client_Fetch :: "SeqSet \<Rightarrow> FetchOptions \<Rightarrow> error + 'bs FetchMessageBuffer list"
  client_FetchStream ::
    "SeqSet \<Rightarrow> FetchOptions \<Rightarrow> (32 word \<times> fetch_item list) list \<times> error option"

text \<open>
  \<open>MimePartMetadata\<close> and \<open>MimePart\<close> with the fields \<open>FetchMessages\<close> reads and writes;
  \<open>md_FetchSection\<close> is the part path of the fetch section.
\<close>

record MimePartMetadata =
  md_Type :: string
  md_Subtype :: string
  md_Path :: "int list"
  md_Params :: "(string \<times> string) list"
  md_Filename :: string
  md_FetchSection :: "int list"

record MimePart =
  part_Type :: string
  part_Subtype :: string
  part_Content :: string
  part_Size :: "32 word"
  part_Charset :: string
  part_Filename :: string

text \<open>
  Modelled from the spec: \<open>EmailMessage\<close>, whose declaration is not among the sources. Of the
  domain message of section 3 the record keeps the identifier (sequence number and UID),
  the ordered list of MIME parts and the total match count.
\<close>

record EmailMessage =
  em_SeqNum :: "32 word"
  em_UID :: "32 word"
  MimeParts :: "MimePart list"
  TotalCount :: "32 word"

text \<open>
  The functions of package \<open>dsl\<close> that \<open>FetchMessages\<close> calls and that are not among the
  sources are parameters.
\<close>

record 'bs helpers =
  BuildFetchOptions :: "OutputConfig \<Rightarrow> error + FetchOptions"
  determineRequiredBodySections :: "'bs \<Rightarrow> OutputConfig \<Rightarrow> error + MimePartMetadata list"
  NewEmailMessageFromIMAP :: "'bs FetchMessageBuffer \<Rightarrow> MimePart list \<Rightarrow> error + EmailMessage"

subsection \<open>Step 3: the total\<close>

definition total_found :: "SearchData \<Rightarrow> int" where
  "total_found searchData =
     (if Count searchData > 0 then uint (Count searchData)
      else int (length (AllSeqNums searchData)))"

subsection \<open>No sequence numbers but a count: the manual sequence range\<close>

text \<open>
  \<open>None\<close> is the early \<open>return nil, nil\<close> for an offset beyond the total; otherwise the pair
  \<open>(endSeq, startSeq)\<close> handed to \<open>manualSeqSet.AddRange\<close>. Go's \<open>int\<close> is modelled by \<open>int\<close>:
  for a limit and an offset that are not negative, every value computed here lies between
  \<open>- totalFound\<close> and \<open>totalFound\<close>.
\<close>

definition manual_range :: "int \<Rightarrow> OutputConfig \<Rightarrow> (int \<times> int) option" where
  "manual_range totalFound output =
     (let limit = (if Limit output > 0 \<and> Limit output < totalFound then Limit output
                   else totalFound);
          offset = Offset output
      in if offset > totalFound then None
         else let startSeq = totalFound - offset;
                  endSeq = startSeq - limit + 1
              in Some (if endSeq < 1 then 1 else endSeq, startSeq))"

text \<open>The loop that reverses \<open>seqNums\<close> in place by swapping from both ends.\<close>

function reverse_in_place :: "'a list \<Rightarrow> int \<Rightarrow> int \<Rightarrow> 'a list" where
  "reverse_in_place seqNums i j =
     (if i < j then
        reverse_in_place (seqNums[nat i := seqNums ! nat j, nat j := seqNums ! nat i])
          (i + 1) (j - 1)
      else seqNums)"
  by pat_completeness auto

termination
  by (relation "measure (\<lambda>(seqNums, i, j). nat (j - i))") auto

definition manual_seq_nums ::
  "('t, 'bs) client \<Rightarrow> int \<Rightarrow> int \<Rightarrow> 32 word list \<Rightarrow> error + 32 word list" where
  "manual_seq_nums cl endSeq startSeq seqNums =
     (case client_Fetch cl [Range (word_of_int endSeq) (word_of_int startSeq)]
             \<lparr>fetch_UID = True, fetch_BodyStructure = False, fetch_BodySection = [],
              fetch_items = []\<rparr> of
        Inl err \<Rightarrow> Inl (Wrapped ''failed to fetch message UIDs'' err)
      | Inr uidMessages \<Rightarrow>
          (let seqNums' = seqNums @ map SeqNum uidMessages
           in Inr (reverse_in_place seqNums' 0 (int (length seqNums') - 1))))"

subsection \<open>Step 4: the sequence set of the page\<close>

text \<open>
  The loop \<open>for i := startIdx; i >= endIdx; i--\<close> with the calls \<open>seqSet.AddNum(seqNums[i])\<close>;
  an index outside the slice is the run-time panic of Go.
\<close>

function add_nums :: "32 word list \<Rightarrow> int \<Rightarrow> int \<Rightarrow> SeqSet \<Rightarrow> error + SeqSet" where
  "add_nums seqNums i endIdx seqSet =
     (if i \<ge> endIdx then
        (if 0 \<le> i \<and> i < int (length seqNums)
         then add_nums seqNums (i - 1) endIdx (seqSet @ [Num (seqNums ! nat i)])
         else Inl IndexOutOfRange)
      else Inr seqSet)"
  by pat_completeness auto

termination
  by (relation "measure (\<lambda>(seqNums, i, endIdx, seqSet). nat (i - endIdx + 1))") auto

text \<open>\<open>Inr None\<close> is the \<open>return nil, nil\<close> of the invalid start index.\<close>

definition select_window :: "32 word list \<Rightarrow> OutputConfig \<Rightarrow> error + SeqSet option" where
  "select_window seqNums output =
     (let limit = (if Limit output > 0 \<and> Limit output < int (length seqNums) then Limit output
                   else int (length seqNums));
          offset = (if Offset output > int (length seqNums) then int (length seqNums)
                    else Offset output);
          startIdx = int (length seqNums) - 1 - offset;
          endIdx = (if startIdx - limit + 1 < 0 then 0 else startIdx - limit + 1)
      in if startIdx \<ge> 0 \<and> startIdx < int (length seqNums) then
           (case add_nums seqNums startIdx endIdx [] of
              Inl err \<Rightarrow> Inl err
            | Inr seqSet \<Rightarrow> Inr (Some seqSet))
         else Inr None)"

subsection \<open>Step 7: structure, batched content, assembly\<close>

text \<open>
  First pass: a message with required parts is queued with its metadata (the index kept
  beside it in the source is only logged), any other is converted at once, without parts.
\<close>

fun first_pass ::
  "'bs helpers \<Rightarrow> OutputConfig \<Rightarrow> int \<Rightarrow> 'bs FetchMessageBuffer list
     \<Rightarrow> ('bs FetchMessageBuffer \<times> MimePartMetadata list) list \<Rightarrow> EmailMessage list
     \<Rightarrow> error + (('bs FetchMessageBuffer \<times> MimePartMetadata list) list \<times> EmailMessage list)"
  where
  "first_pass H output totalFound [] messagesToFetch result = Inr (messagesToFetch, result)"
| "first_pass H output totalFound (msg # msgs) messagesToFetch result =
     (case determineRequiredBodySections H (BodyStructure msg) output of
        Inl err \<Rightarrow> Inl (Wrapped ''failed to determine required body sections'' err)
      | Inr mimePartMetadata \<Rightarrow>
          if length mimePartMetadata > 0 then
            first_pass H output totalFound msgs (messagesToFetch @ [(msg, mimePartMetadata)])
              result
          else
            (case NewEmailMessageFromIMAP H msg [] of
               Inl err \<Rightarrow> Inl (Wrapped ''failed to convert message'' err)
             | Inr email \<Rightarrow>
                 first_pass H output totalFound msgs messagesToFetch
                   (result @ [email\<lparr>TotalCount := word_of_int totalFound\<rparr>])))"

text \<open>
  The content map. Its keys are the strings \<open>fmt.Sprintf("%d:%v", seqNum, path)\<close>, which the
  third pass splits at the first colon and reads back; a sequence number prints as digits
  and a path as a bracketed list, so a key determines the pair, and the model keeps the
  pair \<open>(seqNum, path)\<close>. The map is an association list, a later entry in front of an
  earlier one.
\<close>

type_synonym content_map = "((32 word \<times> int list) \<times> string) list"

fun read_items :: "32 word \<Rightarrow> fetch_item list \<Rightarrow> content_map \<Rightarrow> error + content_map" where
  "read_items seqNum [] contentMap = Inr contentMap"
| "read_items seqNum (OtherItem # items) contentMap = read_items seqNum items contentMap"
| "read_items seqNum (BodySectionItem part None # items) contentMap =
     read_items seqNum items contentMap"
| "read_items seqNum (BodySectionItem part (Some (Inl err)) # items) contentMap =
     Inl (Wrapped ''failed to read body section'' err)"
| "read_items seqNum (BodySectionItem part (Some (Inr content)) # items) contentMap =
     read_items seqNum items (((seqNum, part), content) # contentMap)"

fun read_messages ::
  "(32 word \<times> fetch_item list) list \<Rightarrow> content_map \<Rightarrow> error + content_map" where
  "read_messages [] contentMap = Inr contentMap"
| "read_messages ((seqNum, items) # fetched) contentMap =
     (case read_items seqNum items contentMap of
        Inl err \<Rightarrow> Inl err
      | Inr contentMap' \<Rightarrow> read_messages fetched contentMap')"

text \<open>
  The parts of one message: a metadata entry whose key is in the content map gives a part
  with that content (\<open>make_part\<close> is the \<open>MimePart\<close> literal of the loop), an entry whose
  key is missing is skipped (\<open>continue\<close>).
\<close>

definition make_part :: "MimePartMetadata \<Rightarrow> string \<Rightarrow> MimePart" where
  "make_part metadata content =
     \<lparr>part_Type = md_Type metadata, part_Subtype = md_Subtype metadata,
      part_Content = content, part_Size = word_of_nat (length content),
      part_Charset = (case map_of (md_Params metadata) ''charset'' of
                        None \<Rightarrow> []
                      | Some v \<Rightarrow> v),
      part_Filename = md_Filename metadata\<rparr>"

fun build_mime_parts :: "content_map \<Rightarrow> 32 word \<Rightarrow> MimePartMetadata list \<Rightarrow> MimePart list" where
  "build_mime_parts contentMap seqNum [] = []"
| "build_mime_parts contentMap seqNum (metadata # rest) =
     (case map_of contentMap (seqNum, md_Path metadata) of
        None \<Rightarrow> build_mime_parts contentMap seqNum rest
      | Some content \<Rightarrow> make_part metadata content # build_mime_parts contentMap seqNum rest)"

text \<open>
  Third pass: a message without any entry in the content map is converted without parts,
  any other with the parts built from its metadata.
\<close>

fun third_pass ::
  "'bs helpers \<Rightarrow> int \<Rightarrow> content_map \<Rightarrow> ('bs FetchMessageBuffer \<times> MimePartMetadata list) list
     \<Rightarrow> EmailMessage list \<Rightarrow> error + EmailMessage list" where
  "third_pass H totalFound contentMap [] result = Inr result"
| "third_pass H totalFound contentMap ((msg, mimePartMetadata) # rest) result =
     (let mimeParts =
            (if list_ex (\<lambda>((seqNum, path), content). seqNum = SeqNum msg) contentMap
             then build_mime_parts contentMap (SeqNum msg) mimePartMetadata
             else [])
      in case NewEmailMessageFromIMAP H msg mimeParts of
           Inl err \<Rightarrow> Inl (Wrapped ''failed to convert message'' err)
         | Inr email \<Rightarrow>
             third_pass H totalFound contentMap rest
               (result @ [email\<lparr>TotalCount := word_of_int totalFound\<rparr>]))"

definition batch_fetch ::
  "('t, 'bs) client \<Rightarrow> 'bs helpers \<Rightarrow> OutputConfig
     \<Rightarrow> ('bs FetchMessageBuffer \<times> MimePartMetadata list) list \<Rightarrow> error + content_map" where
  "batch_fetch cl H output messagesToFetch =
     (let batchSeqSet = map (\<lambda>(msg, mimePartMetadata). Num (SeqNum msg)) messagesToFetch;
          allFetchSections =
            concat (map (\<lambda>(msg, mimePartMetadata). map md_FetchSection mimePartMetadata)
                      messagesToFetch)
      in case BuildFetchOptions H output of
           Inl err \<Rightarrow> Inl (Wrapped ''failed to build batch fetch options'' err)
         | Inr batchFetchOptions \<Rightarrow>
             (case client_FetchStream cl batchSeqSet
                     (batchFetchOptions\<lparr>fetch_BodyStructure := True,
                                         fetch_BodySection := allFetchSections\<rparr>) of
                (fetched, closeErr) \<Rightarrow>
                  (case read_messages fetched [] of
                     Inl err \<Rightarrow> Inl err
                   | Inr contentMap \<Rightarrow>
                       (case closeErr of
                          Some err \<Rightarrow> Inl (Wrapped ''failed to close batch fetch command'' err)
                        | None \<Rightarrow> Inr contentMap))))"

definition fetch_and_assemble ::
  "('t, 'bs) client \<Rightarrow> 'bs helpers \<Rightarrow> OutputConfig \<Rightarrow> int \<Rightarrow> SeqSet
     \<Rightarrow> error + EmailMessage list" where
  "fetch_and_assemble cl H output totalFound seqSet =
     (case BuildFetchOptions H output of
        Inl err \<Rightarrow> Inl (Wrapped ''failed to build fetch options'' err)
      | Inr fetchOptions \<Rightarrow>
          (case client_Fetch cl seqSet (fetchOptions\<lparr>fetch_BodySection := []\<rparr>) of
             Inl err \<Rightarrow> Inl (Wrapped ''failed to fetch messages'' err)
           | Inr messages \<Rightarrow>
               (case first_pass H output totalFound messages [] [] of
                  Inl err \<Rightarrow> Inl err
                | Inr (messagesToFetch, result) \<Rightarrow>
                    if length messagesToFetch = 0 then Inr result
                    else
                      (case batch_fetch cl H output messagesToFetch of
                         Inl err \<Rightarrow> Inl err
                       | Inr contentMap \<Rightarrow>
                           third_pass H totalFound contentMap messagesToFetch result))))"

subsection \<open>The whole function\<close>

text \<open>The result \<open>Inr []\<close> is \<open>return nil, nil\<close>: no message and no error.\<close>

definition FetchMessages ::
  "'t lib \<Rightarrow> ('t, 'bs) client \<Rightarrow> 'bs helpers \<Rightarrow> Rule \<Rightarrow> error + EmailMessage list" where
  "FetchMessages L cl H rule =
     (case BuildSearchCriteria L (Search rule) (Some (Output rule)) of
        Inl err \<Rightarrow> Inl (Wrapped ''failed to build search criteria'' err)
      | Inr (criteria, options) \<Rightarrow>
          (case client_Search cl criteria options of
             Inl err \<Rightarrow> Inl (Wrapped ''failed to execute search'' err)
           | Inr searchData \<Rightarrow>
               (let seqNums = AllSeqNums searchData;
                    totalFound = total_found searchData
                in if totalFound = 0 then Inr []
                   else
                     (case (if length seqNums = 0 \<and> totalFound > 0 then
                              (case manual_range totalFound (Output rule) of
                                 None \<Rightarrow> Inr None
                               | Some (endSeq, startSeq) \<Rightarrow>
                                   (case manual_seq_nums cl endSeq startSeq seqNums of
                                      Inl err \<Rightarrow> Inl err
                                    | Inr seqNums' \<Rightarrow> Inr (Some seqNums')))
                            else Inr (Some seqNums)) of
                        Inl err \<Rightarrow> Inl err
                      | Inr None \<Rightarrow> Inr []
                      | Inr (Some seqNums') \<Rightarrow>
                          (case select_window seqNums' (Output rule) of
                             Inl err \<Rightarrow> Inl err
                           | Inr None \<Rightarrow> Inr []
                           | Inr (Some seqSet) \<Rightarrow>
                               fetch_and_assemble cl H (Output rule) totalFound seqSet)))))"


text \<open>
  The parts of a message as the amended C4 words them: one part for each required entry
  whose \<open>(sequence number, path)\<close> key has content, in the order of the entries, and none
  for an entry whose key is missing.
\<close>

definition present_parts :: "content_map \<Rightarrow> 32 word \<Rightarrow> MimePartMetadata list \<Rightarrow> MimePart list" where
  "present_parts contentMap seqNum mds =
     map (\<lambda>md. make_part md (the (map_of contentMap (seqNum, md_Path md))))
       (filter (\<lambda>md. map_of contentMap (seqNum, md_Path md) \<noteq> None) mds)"

subsection \<open>Example servers\<close>

text \<open>
  The example server holds the messages \<open>1\<close> to \<open>20\<close>; message \<open>n\<close> has UID \<open>1000 + n\<close> and
  the body structure \<open>structure n\<close>, which in the examples is the list of required parts
  itself. A collected fetch answers with the messages of the sequence set, in the order of
  the set and ascending within a range.
\<close>

definition page_output :: "int \<Rightarrow> int \<Rightarrow> OutputConfig" where
  "page_output limit offset =
     \<lparr>Format = ''json'', Limit = limit, Offset = offset, AfterUID = 0, BeforeUID = 0,
      Fields = [FieldValue \<lparr>Name = ''subject'', Content = None\<rparr>]\<rparr>"

definition example_rule :: "int \<Rightarrow> int \<Rightarrow> Rule" where
  "example_rule limit offset =
     \<lparr>rule_Name = ''example'', Description = [], Search = from_condition ''a@x.org'',
      Output = page_output limit offset\<rparr>"

definition example_message ::
  "(32 word \<Rightarrow> MimePartMetadata list) \<Rightarrow> 32 word \<Rightarrow> MimePartMetadata list FetchMessageBuffer"
  where
  "example_message structure n = \<lparr>SeqNum = n, UID = 1000 + n, BodyStructure = structure n\<rparr>"

fun range_messages ::
  "(32 word \<Rightarrow> MimePartMetadata list) \<Rightarrow> 32 word \<Rightarrow> nat
     \<Rightarrow> MimePartMetadata list FetchMessageBuffer list" where
  "range_messages structure a 0 = []"
| "range_messages structure a (Suc k) =
     example_message structure a # range_messages structure (a + 1) k"

fun seq_entry_messages ::
  "(32 word \<Rightarrow> MimePartMetadata list) \<Rightarrow> seq_entry
     \<Rightarrow> MimePartMetadata list FetchMessageBuffer list" where
  "seq_entry_messages structure (Num n) = [example_message structure n]"
| "seq_entry_messages structure (Range a b) =
     range_messages structure a (Suc (unat b) - unat a)"

definition example_client ::
  "32 word list \<Rightarrow> 32 word \<Rightarrow> (32 word \<Rightarrow> MimePartMetadata list)
     \<Rightarrow> (32 word \<times> fetch_item list) list \<Rightarrow> (unit, MimePartMetadata list) client" where
  "example_client listed count structure stream =
     \<lparr>client_Search = (\<lambda>criteria options. Inr \<lparr>AllSeqNums = listed, Count = count\<rparr>),
      client_Fetch = (\<lambda>seqSet options. Inr (concat (map (seq_entry_messages structure) seqSet))),
      client_FetchStream = (\<lambda>seqSet options. (stream, None))\<rparr>"

definition example_helpers :: "MimePartMetadata list helpers" where
  "example_helpers =
     \<lparr>BuildFetchOptions =
        (\<lambda>output. Inr \<lparr>fetch_UID = True, fetch_BodyStructure = True, fetch_BodySection = [],
                         fetch_items = [''ENVELOPE'', ''FLAGS'']\<rparr>),
      determineRequiredBodySections = (\<lambda>bodyStructure output. Inr bodyStructure),
      NewEmailMessageFromIMAP =
        (\<lambda>msg mimeParts. Inr \<lparr>em_SeqNum = SeqNum msg, em_UID = UID msg,
                                 MimeParts = mimeParts, TotalCount = 0\<rparr>)\<rparr>"

definition one_to_twenty :: "32 word list" where
  "one_to_twenty = [1, 2, 3, 4, 5, 6, 7, 8, 9, 10, 11, 12, 13, 14, 15, 16, 17, 18, 19, 20]"

definition listing_client :: "(unit, MimePartMetadata list) client" where
  "listing_client = example_client one_to_twenty 20 (\<lambda>n. []) []"

definition count_only_client :: "(unit, MimePartMetadata list) client" where
  "count_only_client = example_client [] 20 (\<lambda>n. []) []"

definition text_part :: "int \<Rightarrow> MimePartMetadata" where
  "text_part k =
     \<lparr>md_Type = ''text'', md_Subtype = ''plain'', md_Path = [k],
      md_Params = [(''charset'', ''utf-8'')], md_Filename = [], md_FetchSection = [k]\<rparr>"

text \<open>
  A server whose two matches, the messages \<open>7\<close> and \<open>8\<close>, have two text parts each, and
  whose batched content response lacks part \<open>2\<close> of message \<open>7\<close>.
\<close>

definition two_part_client :: "(unit, MimePartMetadata list) client" where
  "two_part_client =
     example_client [7, 8] 2 (\<lambda>n. [text_part 1, text_part 2])
       [(7, [OtherItem, BodySectionItem [1] (Some (Inr ''hello''))]),
        (8, [BodySectionItem [2] (Some (Inr ''beta'')), BodySectionItem [1] (Some (Inr ''alpha''))])]"


chapter \<open>Verification\<close>

section \<open>Properties of the string helpers\<close>

lemma HasPrefix_iff_prefix: "HasPrefix s p \<longleftrightarrow> prefix p s"
  unfolding HasPrefix_def prefix_def
  by (metis append_eq_conv_conj append_take_drop_id)

lemma ToLower_ascii: "is_ascii s \<Longrightarrow> ToLower U s = map ascii_lower s"
  by (simp add: ToLower_def)

section \<open>parseSize\<close>

lemma submatch_digits_unit:
  assumes "list_all isDigit ds" and "u \<in> size_units"
  shows "takeWhile isDigit (ds @ u) = ds" and "dropWhile isDigit (ds @ u) = u"
proof -
  have d: "\<forall>x\<in>set ds. isDigit x" using assms(1) by (simp add: list_all_iff)
  have u: "takeWhile isDigit u = []" "dropWhile isDigit u = u"
    using assms(2) by (auto simp: size_units_def isDigit_def)
  show "takeWhile isDigit (ds @ u) = ds" using d u by (simp add: takeWhile_append2)
  show "dropWhile isDigit (ds @ u) = u" using d u by (simp add: dropWhile_append2)
qed

lemma FindStringSubmatch_size_Some:
  assumes "FindStringSubmatch_size s = Some (ds, u)"
  shows "s = ds @ u \<and> ds \<noteq> [] \<and> list_all isDigit ds \<and> u \<in> size_units"
proof -
  have "ds = takeWhile isDigit s \<and> u = dropWhile isDigit s \<and> ds \<noteq> [] \<and> u \<in> size_units"
    using assms by (auto simp: FindStringSubmatch_size_def Let_def size_units_def split: if_splits)
  then show ?thesis
    by (auto simp: list_all_iff dest: set_takeWhileD)
qed

lemma FindStringSubmatch_size_append:
  assumes "ds \<noteq> []" "list_all isDigit ds" "u \<in> size_units"
  shows "FindStringSubmatch_size (ds @ u) = Some (ds, u)"
  using assms submatch_digits_unit[OF assms(2,3)]
  by (auto simp: FindStringSubmatch_size_def Let_def size_units_def)

lemma ParseInt_digits:
  assumes "ds \<noteq> []" "list_all isDigit ds"
  shows "ParseInt ds =
           (if dec_value ds \<ge> 2 ^ 63 then Inl ErrRange else Inr (word_of_nat (dec_value ds)))"
proof -
  obtain c r where ds: "ds = c # r" using assms(1) by (cases ds) auto
  then have "isDigit c" using assms(2) by simp
  then have "c \<noteq> CHR ''+''" "c \<noteq> CHR ''-''" by (auto simp: isDigit_def)
  then show ?thesis using assms ds by (simp add: ParseInt_def)
qed

lemma parseSize_digits_unit:
  assumes "ds \<noteq> []" "list_all isDigit ds" "u \<in> size_units"
  shows "parseSize (ds @ u) =
           (if dec_value ds \<ge> 2 ^ 63 then Inl (InvalidSizeNumber ds)
            else Inr (word_of_nat (dec_value ds) * word_of_nat (spec_unit_factor u)))"
  using assms(3)
  by (auto simp: parseSize_def FindStringSubmatch_size_append[OF assms]
        ParseInt_digits[OF assms(1,2)] spec_unit_factor_def size_units_def)

lemma parseSize_Inr_matches:
  assumes "parseSize s = Inr w"
  shows "spec_size_syntax s \<and> dec_value (takeWhile isDigit s) < 2 ^ 63"
proof -
  obtain ds u where m: "FindStringSubmatch_size s = Some (ds, u)"
    using assms by (auto simp: parseSize_def split: option.splits)
  from FindStringSubmatch_size_Some[OF m]
  have s: "s = ds @ u" "ds \<noteq> []" "list_all isDigit ds" "u \<in> size_units" by auto
  have tw: "takeWhile isDigit s = ds" using submatch_digits_unit(1)[OF s(3,4)] s(1) by simp
  have "dec_value ds < 2 ^ 63"
    using assms parseSize_digits_unit[OF s(2,3,4)] s(1) by (auto split: if_splits)
  then show ?thesis using s tw by (auto simp: spec_size_syntax_def)
qed

lemma sint_word_of_nat_small:
  assumes "n < 2 ^ 63"
  shows "sint (word_of_nat n :: 64 word) = int n"
proof -
  have "sint (word_of_nat n :: 64 word) = signed_take_bit 63 (int n)"
    by (simp add: signed_of_nat)
  moreover have "signed_take_bit 63 (int n) = int n"
    using assms by (intro signed_take_bit_int_eq_self) auto
  ultimately show ?thesis by simp
qed

text \<open>
  C6 (as amended). \<open>parseSize\<close> succeeds exactly when the string is one or more decimal
  digits followed by nothing or by one of \<open>B\<close>, \<open>K\<close>, \<open>M\<close>, \<open>G\<close> (the language of
  \<open>^(\d+)([BKMG])?$\<close>) and the number is at most \<open>2^63 - 1\<close>. When the product of the number
  and the factor of the unit (1, 1024, 1024^2, 1024^3) is at most \<open>2^63 - 1\<close> as well,
  the result is that product.
\<close>

theorem parseSize_accepts_and_scales:
  "((\<exists>w. parseSize s = Inr w) \<longleftrightarrow>
      spec_size_syntax s \<and> dec_value (takeWhile isDigit s) < 2 ^ 63)
   \<and> (\<forall>ds u. s = ds @ u \<and> ds \<noteq> [] \<and> list_all isDigit ds \<and> u \<in> size_units
         \<and> dec_value ds * spec_unit_factor u < 2 ^ 63
       \<longrightarrow> (\<exists>w. parseSize s = Inr w \<and> sint w = int (dec_value ds * spec_unit_factor u)))"
proof -
  have fwd: "spec_size_syntax s \<and> dec_value (takeWhile isDigit s) < 2 ^ 63"
    if "\<exists>w. parseSize s = Inr w"
    using that parseSize_Inr_matches by blast
  have bwd: "\<exists>w. parseSize s = Inr w"
    if a: "spec_size_syntax s \<and> dec_value (takeWhile isDigit s) < 2 ^ 63"
  proof -
    obtain ds u where s: "s = ds @ u" "ds \<noteq> []" "list_all isDigit ds" "u \<in> size_units"
      using a unfolding spec_size_syntax_def by blast
    have "takeWhile isDigit s = ds" using submatch_digits_unit(1)[OF s(3,4)] s(1) by simp
    then have "dec_value ds < 2 ^ 63" using a by simp
    then show ?thesis
      using parseSize_digits_unit[OF s(2,3,4)] s(1) by simp
  qed
  have val: "\<exists>w. parseSize s = Inr w \<and> sint w = int (dec_value ds * spec_unit_factor u)"
    if a: "s = ds @ u \<and> ds \<noteq> [] \<and> list_all isDigit ds \<and> u \<in> size_units
        \<and> dec_value ds * spec_unit_factor u < 2 ^ 63" for ds u
  proof -
    have f: "1 \<le> spec_unit_factor u" by (simp add: spec_unit_factor_def)
    have "dec_value ds * 1 \<le> dec_value ds * spec_unit_factor u"
      using f by (intro mult_le_mono2)
    then have "dec_value ds \<le> dec_value ds * spec_unit_factor u" by simp
    moreover have "dec_value ds * spec_unit_factor u < 2 ^ 63" using a by blast
    ultimately have small: "dec_value ds < 2 ^ 63" by (rule le_less_trans)
    have "parseSize s = Inr (word_of_nat (dec_value ds) * word_of_nat (spec_unit_factor u))"
      using parseSize_digits_unit[of ds u] a small by simp
    moreover have
      "sint (word_of_nat (dec_value ds) * word_of_nat (spec_unit_factor u) :: 64 word)
         = int (dec_value ds * spec_unit_factor u)"
      using sint_word_of_nat_small[of "dec_value ds * spec_unit_factor u"] a by simp
    ultimately show ?thesis by blast
  qed
  show ?thesis using fwd bwd val by blast
qed

lemmas parseSize_eval =
  parseSize_def FindStringSubmatch_size_def isDigit_def ParseInt_def dec_value_def digit_val_def

theorem parseSize_accepts_and_scales_witness:
  "parseSize ''10K'' = Inr 10240 \<and> parseSize ''5M'' = Inr 5242880
   \<and> parseSize ''100B'' = Inr 100 \<and> parseSize ''bad'' = Inl (InvalidSizeFormat ''bad'')
   \<and> (\<exists>w. parseSize ''10K'' = Inr w \<and> sint w = 10240)"
proof -
  have e: "parseSize ''10K'' = Inr 10240" "parseSize ''5M'' = Inr 5242880"
    "parseSize ''100B'' = Inr 100" "parseSize ''bad'' = Inl (InvalidSizeFormat ''bad'')"
    by (simp_all add: parseSize_eval)
  have h: "''10K'' = ''10'' @ ''K'' \<and> ''10'' \<noteq> [] \<and> list_all isDigit ''10'' \<and> ''K'' \<in> size_units
         \<and> dec_value ''10'' * spec_unit_factor ''K'' < 2 ^ 63"
    by (simp add: isDigit_def size_units_def dec_value_def digit_val_def spec_unit_factor_def)
  have v: "int (dec_value ''10'' * spec_unit_factor ''K'') = 10240"
    by (simp add: dec_value_def digit_val_def spec_unit_factor_def)
  from parseSize_accepts_and_scales[of "''10K''"] h
  have "\<exists>w. parseSize ''10K'' = Inr w \<and> sint w = int (dec_value ''10'' * spec_unit_factor ''K'')"
    by blast
  then show ?thesis using e v by simp
qed

text \<open>
  C6 as stated fails: a digit string beyond the range of \<open>int64\<close> matches the regular
  expression, and \<open>parseSize\<close> returns an error for it.
\<close>

theorem parseSize_match_but_error:
  "spec_size_syntax ''99999999999999999999''
   \<and> parseSize ''99999999999999999999'' = Inl (InvalidSizeNumber ''99999999999999999999'')"
proof -
  have "''99999999999999999999'' = ''99999999999999999999'' @ []
      \<and> ''99999999999999999999'' \<noteq> [] \<and> list_all isDigit ''99999999999999999999''
      \<and> [] \<in> size_units"
    by (simp add: isDigit_def size_units_def)
  then have "spec_size_syntax ''99999999999999999999''"
    unfolding spec_size_syntax_def by blast
  moreover have "parseSize ''99999999999999999999''
      = Inl (InvalidSizeNumber ''99999999999999999999'')"
    by (simp add: parseSize_eval)
  ultimately show ?thesis by simp
qed

text \<open>
  C9. \<open>parseSize\<close> accepts \<open>9000000000G\<close>: the number is within \<open>int64\<close>, the product with
  \<open>1024^3\<close> is not, and the returned 64-bit value is that product reduced modulo \<open>2^64\<close>,
  which is negative when read as \<open>int64\<close>.
\<close>

theorem parseSize_overflow_wraps:
  "\<exists>w. parseSize ''9000000000G'' = Inr w
       \<and> dec_value ''9000000000'' = 9000000000
       \<and> sint w < 0
       \<and> sint w = 9000000000 * 1024 ^ 3 - 2 ^ 64
       \<and> uint w = (9000000000 * 1024 ^ 3) mod 2 ^ 64
       \<and> sint w \<noteq> 9000000000 * 1024 ^ 3"
proof -
  have "parseSize ''9000000000G'' = Inr (9000000000 * (1024 * 1024 * 1024))"
    by (simp add: parseSize_eval)
  moreover have "dec_value ''9000000000'' = 9000000000"
    by (simp add: dec_value_def digit_val_def)
  moreover have "sint (9000000000 * (1024 * 1024 * 1024) :: 64 word) = 9000000000 * 1024 ^ 3 - 2 ^ 64"
    by simp
  moreover have "uint (9000000000 * (1024 * 1024 * 1024) :: 64 word) = (9000000000 * 1024 ^ 3) mod 2 ^ 64"
    by simp
  ultimately show ?thesis by simp
qed


section \<open>convertToIMAPFlag\<close>

text \<open>
  C7. A flag name that starts with a backslash or a dollar sign is returned unchanged.
  Any other name is lower-cased and looked up: \<open>seen\<close>, \<open>answered\<close>, \<open>flagged\<close>,
  \<open>deleted\<close>, \<open>draft\<close> and \<open>recent\<close> give the backslash form, \<open>important\<close> gives
  \<open>$Important\<close>, and a name that is none of the seven is returned as it was given.
\<close>

theorem convertToIMAPFlag_cases:
  "(HasPrefix flag [CHR 0x5C] \<or> HasPrefix flag ''$'' \<longrightarrow> convertToIMAPFlag U flag = flag)
   \<and> (\<not> HasPrefix flag [CHR 0x5C] \<and> \<not> HasPrefix flag ''$'' \<longrightarrow>
        (ToLower U flag = ''seen'' \<longrightarrow> convertToIMAPFlag U flag = CHR 0x5C # ''Seen'')
      \<and> (ToLower U flag = ''answered'' \<longrightarrow> convertToIMAPFlag U flag = CHR 0x5C # ''Answered'')
      \<and> (ToLower U flag = ''flagged'' \<longrightarrow> convertToIMAPFlag U flag = CHR 0x5C # ''Flagged'')
      \<and> (ToLower U flag = ''deleted'' \<longrightarrow> convertToIMAPFlag U flag = CHR 0x5C # ''Deleted'')
      \<and> (ToLower U flag = ''draft'' \<longrightarrow> convertToIMAPFlag U flag = CHR 0x5C # ''Draft'')
      \<and> (ToLower U flag = ''recent'' \<longrightarrow> convertToIMAPFlag U flag = CHR 0x5C # ''Recent'')
      \<and> (ToLower U flag = ''important'' \<longrightarrow> convertToIMAPFlag U flag = ''$Important'')
      \<and> (ToLower U flag \<notin> {''seen'', ''answered'', ''flagged'', ''deleted'', ''draft'',
                              ''recent'', ''important''}
          \<longrightarrow> convertToIMAPFlag U flag = flag))"
  by (simp add: convertToIMAPFlag_def standardFlags_def)

theorem convertToIMAPFlag_cases_witness:
  "convertToIMAPFlag (\<lambda>s. s) ''seen'' = CHR 0x5C # ''Seen''
   \<and> convertToIMAPFlag (\<lambda>s. s) ''IMPORTANT'' = ''$Important''
   \<and> convertToIMAPFlag (\<lambda>s. s) (CHR 0x5C # ''Flagged'') = CHR 0x5C # ''Flagged''
   \<and> convertToIMAPFlag (\<lambda>s. s) ''$label1'' = ''$label1''
   \<and> convertToIMAPFlag (\<lambda>s. s) ''CustomTag'' = ''CustomTag''"
  using convertToIMAPFlag_cases[of "''seen''" "\<lambda>s. s"]
    convertToIMAPFlag_cases[of "''IMPORTANT''" "\<lambda>s. s"]
    convertToIMAPFlag_cases[of "CHR 0x5C # ''Flagged''" "\<lambda>s. s"]
    convertToIMAPFlag_cases[of "''$label1''" "\<lambda>s. s"]
    convertToIMAPFlag_cases[of "''CustomTag''" "\<lambda>s. s"]
  by (simp add: HasPrefix_def ToLower_def is_ascii_def ascii_lower_def)

section \<open>ContentField.ShouldInclude\<close>

lemma validate_fields_filter_empty:
  assumes "FieldValue f \<in> set fs" "Name f = ''mime_parts''" "Content f = Some c"
    "Mode c = ''filter''" "Types c = []"
  shows "validate_fields fs \<noteq> None"
  using assms(1)
proof (induction fs rule: validate_fields.induct)
  case 1
  then show ?case by simp
next
  case (2 rest)
  then show ?case by simp
next
  case (3 field rest)
  show ?case
  proof (cases "field = f")
    case True
    then show ?thesis using assms(2-5) by simp
  next
    case False
    then have "FieldValue f \<in> set rest" using 3(4) by simp
    then show ?thesis using 3(1,2,3) by (auto split: option.splits)
  qed
qed

text \<open>
  C10. \<open>ShouldInclude\<close> returns a boolean for every mode and media type: in mode
  \<open>filter\<close> with an empty type list it is true for every media type, although
  \<open>OutputConfig.Validate\<close> rejects every output configuration holding a \<open>mime_parts\<close> field
  in that state; in every mode other than \<open>text_only\<close> and \<open>filter\<close> it is true for every
  media type; and in mode \<open>text_only\<close> it is true exactly for the media types that have
  \<open>text/plain\<close> as a prefix.
\<close>

theorem ShouldInclude_modes:
  "(Mode c = ''filter'' \<and> Types c = [] \<longrightarrow> ShouldInclude c mediaType)
   \<and> (Mode c = ''filter'' \<and> Types c = [] \<and> Name f = ''mime_parts'' \<and> Content f = Some c
        \<and> FieldValue f \<in> set (Fields oc)
      \<longrightarrow> OutputConfig_Validate oc \<noteq> None)
   \<and> (Mode c \<noteq> ''text_only'' \<and> Mode c \<noteq> ''filter'' \<longrightarrow> ShouldInclude c mediaType)
   \<and> (Mode c = ''text_only'' \<longrightarrow> ShouldInclude c mediaType = prefix ''text/plain'' mediaType)"
proof -
  have "OutputConfig_Validate oc \<noteq> None"
    if "Mode c = ''filter''" "Types c = []" "Name f = ''mime_parts''" "Content f = Some c"
      "FieldValue f \<in> set (Fields oc)"
    using validate_fields_filter_empty[OF that(5,3,4,1,2)]
    by (simp add: OutputConfig_Validate_def)
  then show ?thesis
    by (auto simp: ShouldInclude_def HasPrefix_iff_prefix)
qed

theorem ShouldInclude_modes_witness:
  "ShouldInclude \<lparr>Type = [], MaxLength = 0, MinLength = 0, Mode = ''filter'', Types = [],
       ShowTypes = True, ShowContent = False\<rparr> ''image/png''
   \<and> OutputConfig_Validate \<lparr>Format = ''json'', Limit = 10, Offset = 0, AfterUID = 0,
       BeforeUID = 0, Fields = [FieldValue \<lparr>Name = ''mime_parts'', Content = Some
         \<lparr>Type = [], MaxLength = 0, MinLength = 0, Mode = ''filter'', Types = [],
          ShowTypes = True, ShowContent = False\<rparr>\<rparr>]\<rparr> \<noteq> None
   \<and> ShouldInclude \<lparr>Type = [], MaxLength = 0, MinLength = 0, Mode = [], Types = [],
       ShowTypes = True, ShowContent = False\<rparr> ''image/png''
   \<and> ShouldInclude \<lparr>Type = [], MaxLength = 0, MinLength = 0, Mode = ''full'', Types = [],
       ShowTypes = True, ShowContent = False\<rparr> ''image/png''
   \<and> ShouldInclude \<lparr>Type = [], MaxLength = 0, MinLength = 0, Mode = ''text_only'', Types = [],
       ShowTypes = True, ShowContent = False\<rparr> ''text/plainfoo''
   \<and> \<not> ShouldInclude \<lparr>Type = [], MaxLength = 0, MinLength = 0, Mode = ''text_only'', Types = [],
       ShowTypes = True, ShowContent = False\<rparr> ''text/html''"
  using
    ShouldInclude_modes[of "\<lparr>Type = [], MaxLength = 0, MinLength = 0, Mode = ''filter'',
        Types = [], ShowTypes = True, ShowContent = False\<rparr>" "''image/png''"
      "\<lparr>Name = ''mime_parts'', Content = Some \<lparr>Type = [], MaxLength = 0, MinLength = 0,
        Mode = ''filter'', Types = [], ShowTypes = True, ShowContent = False\<rparr>\<rparr>"
      "\<lparr>Format = ''json'', Limit = 10, Offset = 0, AfterUID = 0,
       BeforeUID = 0, Fields = [FieldValue \<lparr>Name = ''mime_parts'', Content = Some
         \<lparr>Type = [], MaxLength = 0, MinLength = 0, Mode = ''filter'', Types = [],
          ShowTypes = True, ShowContent = False\<rparr>\<rparr>]\<rparr>"]
    ShouldInclude_modes[of "\<lparr>Type = [], MaxLength = 0, MinLength = 0, Mode = [],
        Types = [], ShowTypes = True, ShowContent = False\<rparr>" "''image/png''"]
    ShouldInclude_modes[of "\<lparr>Type = [], MaxLength = 0, MinLength = 0, Mode = ''full'',
        Types = [], ShowTypes = True, ShowContent = False\<rparr>" "''image/png''"]
    ShouldInclude_modes[of "\<lparr>Type = [], MaxLength = 0, MinLength = 0, Mode = ''text_only'',
        Types = [], ShowTypes = True, ShowContent = False\<rparr>" "''text/plainfoo''"]
    ShouldInclude_modes[of "\<lparr>Type = [], MaxLength = 0, MinLength = 0, Mode = ''text_only'',
        Types = [], ShowTypes = True, ShowContent = False\<rparr>" "''text/html''"]
  by (simp add: prefix_def)


section \<open>The search compiler\<close>

lemma buildSingleCondition_eq:
  "buildSingleCondition L c oc = BuildSearchCriteria L c oc"
  by (cases c) auto

lemmas flat_eval =
  flat_criteria_def date_criteria_def size_criteria_def flag_criteria_def content_criteria_def
  header_criteria_def uid_criteria_def pagination_options_def empty_fields_def

lemmas example_eval =
  from_condition_def from_criteria_def no_fields_def example_lib_def example_output_def
  empty_options_def

lemma from_condition_compiles:
  "BuildSearchCriteria example_lib (from_condition (a # as)) None
     = Inr (from_criteria (a # as), Some empty_options)"
  by (simp add: flat_eval example_eval)

subsection \<open>NOT\<close>

text \<open>
  C5. A NOT combinator with no child fails with the error for an empty condition list, one
  with two or more children fails with the arity error, and one with exactly one child
  returns the criteria compiled for that child (under the same output configuration) as
  the only entry of \<open>Not\<close> in otherwise empty criteria; when the child does not compile, its
  error is returned. A failure is a value \<open>Inl err\<close>, which holds no criteria.
\<close>

theorem not_compile:
  "(conds = [] \<longrightarrow>
      BuildSearchCriteria L (SearchConfig config ''not'' conds) oc = Inl NotRequiresCondition)
   \<and> (2 \<le> length conds \<longrightarrow>
      BuildSearchCriteria L (SearchConfig config ''not'' conds) oc
        = Inl (NotTooManyConditions (length conds)))
   \<and> (\<forall>A sub opts. conds = [A] \<and> BuildSearchCriteria L A oc = Inr (sub, opts) \<longrightarrow>
      BuildSearchCriteria L (SearchConfig config ''not'' conds) oc
        = Inr (SearchCriteria (empty_fields L) [sub] [], opts))
   \<and> (\<forall>A err. conds = [A] \<and> BuildSearchCriteria L A oc = Inl err \<longrightarrow>
      BuildSearchCriteria L (SearchConfig config ''not'' conds) oc = Inl err)"
proof -
  have "BuildSearchCriteria L (SearchConfig config ''not'' conds) oc
      = Inl (NotTooManyConditions (length conds))" if "2 \<le> length conds"
    using that by (cases conds) auto
  then show ?thesis
    by (auto simp: buildSingleCondition_eq)
qed

theorem not_compile_witness:
  "BuildSearchCriteria example_lib (SearchConfig no_fields ''not'' []) None
     = Inl NotRequiresCondition
   \<and> BuildSearchCriteria example_lib
        (SearchConfig no_fields ''not'' [from_condition ''a@x.org'', from_condition ''b@x.org''])
        None
     = Inl (NotTooManyConditions 2)
   \<and> BuildSearchCriteria example_lib
        (SearchConfig no_fields ''not'' [from_condition ''spam@example.com'']) None
     = Inr (SearchCriteria (empty_fields example_lib) [from_criteria ''spam@example.com''] [],
            Some empty_options)
   \<and> BuildSearchCriteria example_lib
        (SearchConfig no_fields ''not'' [SearchConfig no_fields ''and'' []]) None
     = Inl (EmptyConditionsList ''AND'')"
proof -
  have a: "BuildSearchCriteria example_lib (SearchConfig no_fields ''and'' []) None
      = Inl (EmptyConditionsList ''AND'')"
    by simp
  show ?thesis
    using
      not_compile[of "[]" example_lib no_fields None]
      not_compile[of "[from_condition ''a@x.org'', from_condition ''b@x.org'']"
        example_lib no_fields None]
      not_compile[of "[from_condition ''spam@example.com'']" example_lib no_fields None]
      not_compile[of "[SearchConfig no_fields ''and'' []]" example_lib no_fields None]
      from_condition_compiles[of "CHR ''s''" "''pam@example.com''"] a
    by simp
qed

subsection \<open>OR\<close>

lemma length_spec_or_pairs: "length (spec_or_pairs xs) = (length xs + 1) div 2"
  by (induction xs rule: spec_or_pairs.induct) auto

lemma nth_spec_or_pairs:
  "2 * k + 1 < length xs \<Longrightarrow> spec_or_pairs xs ! k = (xs ! (2 * k), xs ! (2 * k + 1))"
proof (induction xs arbitrary: k rule: spec_or_pairs.induct)
  case 1
  then show ?case by simp
next
  case (2 a)
  then show ?case by simp
next
  case (3 a b rest)
  show ?case
  proof (cases k)
    case 0
    then show ?thesis by simp
  next
    case (Suc j)
    then have "2 * j + 1 < length rest" using 3(2) by simp
    then show ?thesis using 3(1) Suc by simp
  qed
qed

lemma last_spec_or_pairs:
  "odd (length xs) \<Longrightarrow> spec_or_pairs xs ! (length xs div 2) = (last xs, last xs)"
proof (induction xs rule: spec_or_pairs.induct)
  case 1
  then show ?case by simp
next
  case (2 a)
  then show ?case by simp
next
  case (3 a b rest)
  then have "rest \<noteq> []" by auto
  then show ?case using 3 by simp
qed

lemma or_loop_pairs:
  assumes "\<forall>c\<in>set conds. \<exists>r. BuildSearchCriteria L c None = Inr r"
  shows "\<exists>opts'. or_loop L conds first oc res opts
           = Inr (SearchCriteria (crit res) (crit_Not res)
                    (crit_Or res
                      @ spec_or_pairs (map (\<lambda>c. fst (projr (BuildSearchCriteria L c None))) conds)),
                  opts')"
  using assms
proof (induction conds arbitrary: first res opts rule: spec_or_pairs.induct)
  case 1
  then show ?case by (cases res) simp
next
  case (2 a)
  then obtain c1 o1 where "BuildSearchCriteria L a None = Inr (c1, o1)" by fastforce
  then show ?case
    by (simp add: buildSingleCondition_eq append_Or_def trailing_second_def)
next
  case (3 a b rest)
  obtain c1 o1 where a: "BuildSearchCriteria L a None = Inr (c1, o1)"
    using 3(2) by fastforce
  obtain c2 o2 where b: "BuildSearchCriteria L b None = Inr (c2, o2)"
    using 3(2) by fastforce
  have "\<forall>c\<in>set rest. \<exists>r. BuildSearchCriteria L c None = Inr r" using 3(2) by simp
  from 3(1)[OF this, of False "append_Or res (c1, c2)"
      "if first \<and> oc \<noteq> None then o1 else opts"]
  show ?case using a b
    by (simp add: buildSingleCondition_eq append_Or_def)
qed

text \<open>
  C1. Let every child of an OR combinator compile when taken alone without output
  configuration, and let \<open>cs\<close> be the list of the criteria compiled for the children. With
  two or more children the compiled criteria are empty but for \<open>Or\<close>, which holds
  \<open>\<lceil>n/2\<rceil>\<close> pairs: pair \<open>k\<close> is made of the children \<open>2k\<close> and \<open>2k+1\<close>, and for an odd
  \<open>n\<close> the last pair is the last child with itself. With one child the result is what
  compiling that child (under the same output configuration) gives, without any pair.
\<close>

theorem or_compile:
  assumes "\<forall>c\<in>set conds. \<exists>r. BuildSearchCriteria L c None = Inr r"
    and "cs = map (\<lambda>c. fst (projr (BuildSearchCriteria L c None))) conds"
  shows "(2 \<le> length conds \<longrightarrow>
           (\<exists>opts. BuildSearchCriteria L (SearchConfig config ''or'' conds) oc
                     = Inr (SearchCriteria (empty_fields L) [] (spec_or_pairs cs), opts))
           \<and> length (spec_or_pairs cs) = (length conds + 1) div 2
           \<and> (\<forall>k. 2 * k + 1 < length conds \<longrightarrow>
                 spec_or_pairs cs ! k = (cs ! (2 * k), cs ! (2 * k + 1)))
           \<and> (odd (length conds) \<longrightarrow>
                 spec_or_pairs cs ! (length conds div 2) = (last cs, last cs)))
         \<and> (\<forall>A. conds = [A] \<longrightarrow>
               BuildSearchCriteria L (SearchConfig config ''or'' conds) oc
                 = BuildSearchCriteria L A oc)"
proof -
  have len: "length cs = length conds" using assms(2) by simp
  have many: "\<exists>opts. BuildSearchCriteria L (SearchConfig config ''or'' conds) oc
                     = Inr (SearchCriteria (empty_fields L) [] (spec_or_pairs cs), opts)"
    if two: "2 \<le> length conds"
  proof -
    obtain a b rest where c: "conds = a # b # rest"
      using two by (cases conds rule: spec_or_pairs.cases) auto
    from or_loop_pairs[OF assms(1), of True oc "SearchCriteria (empty_fields L) [] []" None]
    show ?thesis using c assms(2) by simp
  qed
  have one: "BuildSearchCriteria L (SearchConfig config ''or'' [A]) oc
      = BuildSearchCriteria L A oc" for A
    by (simp add: buildSingleCondition_eq)
  show ?thesis
    using many one len length_spec_or_pairs[of cs] nth_spec_or_pairs[of _ cs]
      last_spec_or_pairs[of cs]
    by auto
qed

theorem or_compile_witness:
  "BuildSearchCriteria example_lib
      (SearchConfig no_fields ''or''
         [from_condition ''a@x.org'', from_condition ''b@x.org'', from_condition ''c@x.org''])
      None
     = Inr (SearchCriteria (empty_fields example_lib) []
              [(from_criteria ''a@x.org'', from_criteria ''b@x.org''),
               (from_criteria ''c@x.org'', from_criteria ''c@x.org'')],
            None)
   \<and> BuildSearchCriteria example_lib
        (SearchConfig no_fields ''or'' [from_condition ''a@x.org'']) None
     = Inr (from_criteria ''a@x.org'', Some empty_options)"
proof -
  let ?conds = "[from_condition ''a@x.org'', from_condition ''b@x.org'', from_condition ''c@x.org'']"
  let ?cs = "[from_criteria ''a@x.org'', from_criteria ''b@x.org'', from_criteria ''c@x.org'']"
  have c: "\<forall>c\<in>set ?conds. \<exists>r. BuildSearchCriteria example_lib c None = Inr r"
    by (simp add: from_condition_compiles)
  have m: "?cs = map (\<lambda>c. fst (projr (BuildSearchCriteria example_lib c None))) ?conds"
    by (simp add: from_condition_compiles)
  have c1: "\<forall>c\<in>set [from_condition ''a@x.org'']. \<exists>r. BuildSearchCriteria example_lib c None = Inr r"
    by (simp add: from_condition_compiles)
  have m1: "[from_criteria ''a@x.org'']
      = map (\<lambda>c. fst (projr (BuildSearchCriteria example_lib c None))) [from_condition ''a@x.org'']"
    by (simp add: from_condition_compiles)
  have direct: "BuildSearchCriteria example_lib
      (SearchConfig no_fields ''or'' ?conds) None
     = Inr (SearchCriteria (empty_fields example_lib) []
              [(from_criteria ''a@x.org'', from_criteria ''b@x.org''),
               (from_criteria ''c@x.org'', from_criteria ''c@x.org'')], None)"
    by (simp add: buildSingleCondition_eq from_condition_compiles append_Or_def
          trailing_second_def)
  show ?thesis
    using or_compile[OF c m, of no_fields None] or_compile[OF c1 m1, of no_fields None]
      direct from_condition_compiles[of "CHR ''a''" "''@x.org''"]
    by simp
qed

subsection \<open>UID bounds\<close>

lemma date_criteria_UID:
  "date_criteria L config c = Inr c' \<Longrightarrow> crit_UID c' = crit_UID c"
  by (auto simp: date_criteria_def split: if_splits sum.splits)

lemma size_criteria_UID:
  "size_criteria config c = Inr c' \<Longrightarrow> crit_UID c' = crit_UID c"
  by (auto simp: size_criteria_def split: if_splits sum.splits option.splits)

lemma flat_criteria_UID:
  assumes "flat_criteria L config oc = Inr (res, opts)"
  shows "crit_UID (crit res) = crit_UID (uid_criteria oc (empty_fields L))"
proof -
  obtain c1 c2 where 1: "date_criteria L config (empty_fields L) = Inr c1"
    and 2: "size_criteria config
              (flag_criteria L config (content_criteria config (header_criteria config c1)))
            = Inr c2"
    and 3: "res = SearchCriteria (uid_criteria oc c2) [] []"
    using assms by (auto simp: flat_criteria_def split: sum.splits)
  have "crit_UID c2 = crit_UID (empty_fields L)"
    using date_criteria_UID[OF 1] size_criteria_UID[OF 2]
    by (simp add: flag_criteria_def content_criteria_def header_criteria_def Let_def
          split: option.splits)
  then show ?thesis using 3
    by (simp add: uid_criteria_def Let_def split: option.splits)
qed

text \<open>
  On the path without operator the UID set is what \<open>AddRange\<close> makes of the arguments
  \<open>(AfterUID + 1, BeforeUID - 1)\<close>, \<open>(AfterUID + 1, 0)\<close> or \<open>(1, BeforeUID - 1)\<close>, computed in
  32 bits; it is the range \<open>AfterUID + 1 : BeforeUID - 1\<close> itself when that range is not
  empty.
\<close>

lemma uid_bounds_leaf:
  assumes "BuildSearchCriteria L (SearchConfig config [] conds) (Some oc) = Inr (res, opts)"
  shows "crit_UID (crit res) =
           (if AfterUID oc > 0 \<and> BeforeUID oc > 0
              then [AddRange_empty (AfterUID oc + 1) (BeforeUID oc - 1)]
            else if AfterUID oc > 0 then [AddRange_empty (AfterUID oc + 1) 0]
            else if BeforeUID oc > 0 then [AddRange_empty 1 (BeforeUID oc - 1)]
            else [])"
proof -
  have "flat_criteria L config (Some oc) = Inr (res, opts)" using assms by simp
  from flat_criteria_UID[OF this] show ?thesis
    by (simp add: uid_criteria_def empty_fields_def Let_def)
qed

lemma AddRange_empty_ordered:
  "start \<noteq> 0 \<Longrightarrow> start \<le> stop \<Longrightarrow> AddRange_empty start stop = [(start, stop)]"
  by (auto simp: AddRange_empty_def)

lemma AddRange_empty_open: "start \<noteq> 0 \<Longrightarrow> AddRange_empty start 0 = [(start, 0)]"
  by (simp add: AddRange_empty_def)

text \<open>
  A combinator with a single child hands the output configuration to that child, so the
  child's UID restriction is the restriction of the whole.
\<close>

lemma and_of_one:
  "BuildSearchCriteria L (SearchConfig config ''and'' [A]) oc = BuildSearchCriteria L A oc"
  by (auto simp: buildSingleCondition_eq split: sum.splits)

lemma or_of_one:
  "BuildSearchCriteria L (SearchConfig config ''or'' [A]) oc = BuildSearchCriteria L A oc"
  by (simp add: buildSingleCondition_eq)

text \<open>
  C8. The UID restriction is not added as stated, at two inputs. An OR of two conditions
  compiled under an output configuration with \<open>AfterUID = 100\<close> and \<open>BeforeUID = 200\<close> has
  no UID restriction at all: \<open>buildOrCondition\<close> compiles every child of a list of two or
  more without the output configuration, whereas \<open>buildAndCondition\<close>, \<open>buildNotCondition\<close>
  and the OR of one child pass it on. And a condition without operator compiled with
  \<open>AfterUID = 5\<close> and \<open>BeforeUID = 6\<close> calls \<open>AddRange(6, 5)\<close>, which gives the range \<open>5:6\<close>:
  both bounds are in the set that was to exclude them. With \<open>AfterUID = 100\<close> and
  \<open>BeforeUID = 200\<close> the same condition gets \<open>101:199\<close>.
\<close>

theorem uid_bounds_defects:
  "AfterUID example_output = 100 \<and> BeforeUID example_output = 200
   \<and> BuildSearchCriteria example_lib
        (SearchConfig no_fields ''or'' [from_condition ''a@x.org'', from_condition ''b@x.org''])
        (Some example_output)
     = Inr (SearchCriteria (empty_fields example_lib) []
              [(from_criteria ''a@x.org'', from_criteria ''b@x.org'')],
            Some empty_options)
   \<and> crit_UID (empty_fields example_lib) = []
   \<and> BuildSearchCriteria example_lib (from_condition ''a@x.org'') (Some example_output)
     = Inr (SearchCriteria
              ((empty_fields example_lib)
                 \<lparr>crit_UID := [[(101, 199)]], crit_Header := [(''From'', ''a@x.org'')]\<rparr>) [] [],
            Some \<lparr>ReturnAll = True, ReturnCount = True\<rparr>)
   \<and> BuildSearchCriteria example_lib (from_condition ''a@x.org'')
        (Some (example_output\<lparr>AfterUID := 5, BeforeUID := 6\<rparr>))
     = Inr (SearchCriteria
              ((empty_fields example_lib)
                 \<lparr>crit_UID := [[(5, 6)]], crit_Header := [(''From'', ''a@x.org'')]\<rparr>) [] [],
            Some \<lparr>ReturnAll = True, ReturnCount = True\<rparr>)"
proof -
  have b: "AfterUID example_output = 100 \<and> BeforeUID example_output = 200"
    by (simp add: example_output_def)
  have o: "BuildSearchCriteria example_lib
        (SearchConfig no_fields ''or'' [from_condition ''a@x.org'', from_condition ''b@x.org''])
        (Some example_output)
     = Inr (SearchCriteria (empty_fields example_lib) []
              [(from_criteria ''a@x.org'', from_criteria ''b@x.org'')],
            Some empty_options)"
    by (simp add: buildSingleCondition_eq from_condition_compiles append_Or_def)
  have e: "crit_UID (empty_fields example_lib) = []"
    by (simp add: empty_fields_def)
  have l: "BuildSearchCriteria example_lib (from_condition ''a@x.org'') (Some example_output)
     = Inr (SearchCriteria
              ((empty_fields example_lib)
                 \<lparr>crit_UID := [[(101, 199)]], crit_Header := [(''From'', ''a@x.org'')]\<rparr>) [] [],
            Some \<lparr>ReturnAll = True, ReturnCount = True\<rparr>)"
    by (simp add: flat_eval example_eval AddRange_empty_def)
  have n: "BuildSearchCriteria example_lib (from_condition ''a@x.org'')
        (Some (example_output\<lparr>AfterUID := 5, BeforeUID := 6\<rparr>))
     = Inr (SearchCriteria
              ((empty_fields example_lib)
                 \<lparr>crit_UID := [[(5, 6)]], crit_Header := [(''From'', ''a@x.org'')]\<rparr>) [] [],
            Some \<lparr>ReturnAll = True, ReturnCount = True\<rparr>)"
    by (simp add: flat_eval example_eval AddRange_empty_def)
  show ?thesis using b o e l n by simp
qed


section \<open>The page of sequence numbers\<close>

declare add_nums.simps [simp del]

declare reverse_in_place.simps [simp del]

lemma add_nums_result:
  assumes "0 \<le> endIdx" "i < int (length seqNums)" "endIdx \<le> i + 1"
  shows "add_nums seqNums i endIdx seqSet
           = Inr (seqSet @ map (\<lambda>k. Num (seqNums ! k)) (rev [nat endIdx ..< nat (i + 1)]))"
  using assms
proof (induction seqNums i endIdx seqSet rule: add_nums.induct)
  case (1 seqNums i endIdx seqSet)
  show ?case
  proof (cases "endIdx \<le> i")
    case True
    then have rng: "0 \<le> i \<and> i < int (length seqNums)" using 1(2,3) by simp
    have step: "add_nums seqNums i endIdx seqSet
        = add_nums seqNums (i - 1) endIdx (seqSet @ [Num (seqNums ! nat i)])"
      using True rng by (subst add_nums.simps) simp
    have ih: "add_nums seqNums (i - 1) endIdx (seqSet @ [Num (seqNums ! nat i)])
        = Inr ((seqSet @ [Num (seqNums ! nat i)])
               @ map (\<lambda>k. Num (seqNums ! k)) (rev [nat endIdx ..< nat (i - 1 + 1)]))"
      using 1(1)[OF True rng] 1(2,3) True by simp
    have "nat (i + 1) = Suc (nat i)" using rng by linarith
    moreover have "nat endIdx \<le> nat i" using True 1(2) by simp
    ultimately have "[nat endIdx ..< nat (i + 1)] = [nat endIdx ..< nat i] @ [nat i]"
      by simp
    then show ?thesis using step ih by simp
  next
    case False
    then have "nat endIdx = nat (i + 1)" using 1(4) by simp
    moreover have "add_nums seqNums i endIdx seqSet = Inr seqSet"
      using False by (subst add_nums.simps) simp
    ultimately show ?thesis by simp
  qed
qed

lemma map_nth_slice:
  "n \<le> length xs \<Longrightarrow> map ((!) xs) [m..<n] = take (n - m) (drop m xs)"
  by (auto simp: list_eq_iff_nth_eq)

lemma select_window_in_range:
  assumes "0 < Limit oc" "0 \<le> Offset oc" "Offset oc < int (length seqNums)"
    and "startIdx = int (length seqNums) - 1 - Offset oc"
    and "endIdx = max 0 (startIdx - Limit oc + 1)"
  shows "select_window seqNums oc
           = Inr (Some (map Num (rev (take (nat (startIdx - endIdx + 1))
                                        (drop (nat endIdx) seqNums)))))"
proof -
  let ?L = "int (length seqNums)"
  let ?limit = "if Limit oc > 0 \<and> Limit oc < ?L then Limit oc else ?L"
  have s: "0 \<le> startIdx" "startIdx < ?L" using assms by auto
  have e: "(if startIdx - ?limit + 1 < 0 then 0 else startIdx - ?limit + 1) = endIdx"
    using assms s by auto
  have e0: "0 \<le> endIdx" "endIdx \<le> startIdx + 1" using assms s by auto
  have off: "(if Offset oc > ?L then ?L else Offset oc) = Offset oc"
    using assms(3) by simp
  have guard: "startIdx \<ge> 0 \<and> startIdx < ?L" using s by simp
  have "select_window seqNums oc
      = (case add_nums seqNums startIdx endIdx [] of Inl err \<Rightarrow> Inl err
         | Inr seqSet \<Rightarrow> Inr (Some seqSet))"
    unfolding select_window_def Let_def
    by (simp only: off assms(4)[symmetric] e guard simp_thms if_True)
  also have "add_nums seqNums startIdx endIdx []
      = Inr (map (\<lambda>k. Num (seqNums ! k)) (rev [nat endIdx ..< nat (startIdx + 1)]))"
    using add_nums_result[OF e0(1) s(2) e0(2), of "[]"] by simp
  also have "map (\<lambda>k. Num (seqNums ! k)) (rev [nat endIdx ..< nat (startIdx + 1)])
      = map Num (rev (map ((!) seqNums) [nat endIdx ..< nat (startIdx + 1)]))"
    by (simp add: rev_map)
  also have "map ((!) seqNums) [nat endIdx ..< nat (startIdx + 1)]
      = take (nat (startIdx + 1) - nat endIdx) (drop (nat endIdx) seqNums)"
    using s by (intro map_nth_slice) simp
  also have "nat (startIdx + 1) - nat endIdx = nat (startIdx - endIdx + 1)"
    using e0 s by simp
  finally show ?thesis by simp
qed

lemma select_window_beyond:
  assumes "Offset oc \<ge> int (length seqNums)"
  shows "select_window seqNums oc = Inr None"
  using assms unfolding select_window_def Let_def by simp

lemma FetchMessages_listed:
  assumes "BuildSearchCriteria L (Search rule) (Some (Output rule)) = Inr (criteria, options)"
    and "client_Search cl criteria options = Inr searchData"
    and "AllSeqNums searchData \<noteq> []"
  shows "FetchMessages L cl H rule =
           (case select_window (AllSeqNums searchData) (Output rule) of
              Inl err \<Rightarrow> Inl err
            | Inr None \<Rightarrow> Inr []
            | Inr (Some seqSet) \<Rightarrow>
                fetch_and_assemble cl H (Output rule) (total_found searchData) seqSet)"
proof -
  have "total_found searchData \<noteq> 0"
    using assms(3) by (auto simp: total_found_def word_less_def)
  then show ?thesis
    using assms unfolding FetchMessages_def Let_def by simp
qed

text \<open>
  C2. For a non-empty identifier list of length \<open>L\<close>, a positive limit and an offset that
  is not negative, let \<open>startIdx = L - 1 - offset\<close> and \<open>endIdx = max 0 (startIdx - limit + 1)\<close>.
  With \<open>offset < L\<close> the sequence set of the page receives the identifiers at the indices
  \<open>startIdx\<close> down to \<open>endIdx\<close>, in that order, which is descending for an ascending list,
  and \<open>FetchMessages\<close>, on a search that answers with this list, goes on to the structure
  fetch and the assembly with exactly that sequence set. With \<open>offset \<ge> L\<close> no window is
  selected, and \<open>FetchMessages\<close> returns no message and no error.
\<close>

theorem select_window_page:
  assumes "seqNums \<noteq> []" "0 < Limit oc" "0 \<le> Offset oc"
    and "startIdx = int (length seqNums) - 1 - Offset oc"
    and "endIdx = max 0 (startIdx - Limit oc + 1)"
    and "window = rev (take (nat (startIdx - endIdx + 1)) (drop (nat endIdx) seqNums))"
  shows "(Offset oc < int (length seqNums) \<longrightarrow>
            select_window seqNums oc = Inr (Some (map Num window))
            \<and> (sorted_wrt (<) seqNums \<longrightarrow> sorted_wrt (\<lambda>a b. b < a) window))
         \<and> (Offset oc \<ge> int (length seqNums) \<longrightarrow> select_window seqNums oc = Inr None)
         \<and> (\<forall>L cl H rule criteria options searchData.
               Output rule = oc
               \<and> BuildSearchCriteria L (Search rule) (Some oc) = Inr (criteria, options)
               \<and> client_Search cl criteria options = Inr searchData
               \<and> AllSeqNums searchData = seqNums
             \<longrightarrow> (Offset oc < int (length seqNums) \<longrightarrow>
                    FetchMessages L cl H rule
                      = fetch_and_assemble cl H oc (total_found searchData) (map Num window))
                 \<and> (Offset oc \<ge> int (length seqNums) \<longrightarrow>
                    FetchMessages L cl H rule = Inr []))"
proof -
  have order: "sorted_wrt (\<lambda>a b. b < a) window" if "sorted_wrt (<) seqNums"
  proof -
    have "sorted_wrt (<) (take (nat (startIdx - endIdx + 1)) (drop (nat endIdx) seqNums))"
      using that by (intro sorted_wrt_take sorted_wrt_drop)
    then show ?thesis using assms(6) by (simp add: sorted_wrt_rev)
  qed
  have inside: "select_window seqNums oc = Inr (Some (map Num window))"
    if "Offset oc < int (length seqNums)"
    using select_window_in_range[OF assms(2,3) that assms(4,5)] assms(6) by simp
  have listed: "FetchMessages L cl H rule =
           (case select_window seqNums oc of
              Inl err \<Rightarrow> Inl err
            | Inr None \<Rightarrow> Inr []
            | Inr (Some seqSet) \<Rightarrow>
                fetch_and_assemble cl H oc (total_found searchData) seqSet)"
    if "Output rule = oc"
      "BuildSearchCriteria L (Search rule) (Some oc) = Inr (criteria, options)"
      "client_Search cl criteria options = Inr searchData"
      "AllSeqNums searchData = seqNums"
    for L :: "'t lib" and cl :: "('t, 'bs) client" and H rule criteria options searchData
  proof -
    have b: "BuildSearchCriteria L (Search rule) (Some (Output rule)) = Inr (criteria, options)"
      using that(1,2) by simp
    have ne: "AllSeqNums searchData \<noteq> []" using that(4) assms(1) by simp
    from FetchMessages_listed[OF b that(3) ne, of H] show ?thesis
      by (simp only: that(1) that(4))
  qed
  have fetch: "FetchMessages L cl H rule
      = fetch_and_assemble cl H oc (total_found searchData) (map Num window)"
    if "Output rule = oc"
      "BuildSearchCriteria L (Search rule) (Some oc) = Inr (criteria, options)"
      "client_Search cl criteria options = Inr searchData"
      "AllSeqNums searchData = seqNums" "Offset oc < int (length seqNums)"
    for L :: "'t lib" and cl :: "('t, 'bs) client" and H rule criteria options searchData
    using listed[OF that(1,2,3,4), of H] inside[OF that(5)] by simp
  have empty: "FetchMessages L cl H rule = Inr []"
    if "Output rule = oc"
      "BuildSearchCriteria L (Search rule) (Some oc) = Inr (criteria, options)"
      "client_Search cl criteria options = Inr searchData"
      "AllSeqNums searchData = seqNums" "Offset oc \<ge> int (length seqNums)"
    for L :: "'t lib" and cl :: "('t, 'bs) client" and H rule criteria options searchData
    using listed[OF that(1,2,3,4), of H] select_window_beyond[OF that(5)] by simp
  show ?thesis
    using inside select_window_beyond[of seqNums oc] order fetch empty
    by blast
qed

lemmas server_eval =
  example_rule_def page_output_def example_client_def example_helpers_def example_message_def
  one_to_twenty_def listing_client_def count_only_client_def two_part_client_def text_part_def

lemma example_rule_compiles:
  "BuildSearchCriteria example_lib (Search (example_rule limit offset))
       (Some (page_output limit offset))
     = Inr (from_criteria ''a@x.org'',
            Some (pagination_options (Some (page_output limit offset)) empty_options))"
  by (simp add: flat_criteria_def date_criteria_def size_criteria_def flag_criteria_def
        content_criteria_def header_criteria_def uid_criteria_def empty_fields_def
        example_eval example_rule_def page_output_def)

theorem select_window_page_witness:
  "select_window one_to_twenty (page_output 5 3)
     = Inr (Some [Num 17, Num 16, Num 15, Num 14, Num 13])
   \<and> sorted_wrt (\<lambda>a b. b < a) [17, 16, 15, 14, 13 :: 32 word]
   \<and> FetchMessages example_lib listing_client example_helpers (example_rule 5 3)
     = Inr [\<lparr>em_SeqNum = 17, em_UID = 1017, MimeParts = [], TotalCount = 20\<rparr>,
            \<lparr>em_SeqNum = 16, em_UID = 1016, MimeParts = [], TotalCount = 20\<rparr>,
            \<lparr>em_SeqNum = 15, em_UID = 1015, MimeParts = [], TotalCount = 20\<rparr>,
            \<lparr>em_SeqNum = 14, em_UID = 1014, MimeParts = [], TotalCount = 20\<rparr>,
            \<lparr>em_SeqNum = 13, em_UID = 1013, MimeParts = [], TotalCount = 20\<rparr>]
   \<and> select_window one_to_twenty (page_output 5 25) = Inr None
   \<and> FetchMessages example_lib listing_client example_helpers (example_rule 5 25) = Inr []"
proof -
  have n: "one_to_twenty \<noteq> []" by (simp add: one_to_twenty_def)
  have a: "0 < Limit (page_output 5 3)" "0 \<le> Offset (page_output 5 3)"
    "0 < Limit (page_output 5 25)" "0 \<le> Offset (page_output 5 25)"
    by (simp_all add: page_output_def)
  have asc: "sorted_wrt (<) one_to_twenty" by (simp add: one_to_twenty_def)
  have w: "rev (take (nat (int (length one_to_twenty) - 1 - Offset (page_output 5 3)
                - max 0 (int (length one_to_twenty) - 1 - Offset (page_output 5 3)
                          - Limit (page_output 5 3) + 1) + 1))
             (drop (nat (max 0 (int (length one_to_twenty) - 1 - Offset (page_output 5 3)
                          - Limit (page_output 5 3) + 1))) one_to_twenty))
      = [17, 16, 15, 14, 13]"
    by (simp add: one_to_twenty_def page_output_def)
  have s: "client_Search listing_client c o' = Inr \<lparr>AllSeqNums = one_to_twenty, Count = 20\<rparr>"
    for c o'
    by (simp add: listing_client_def example_client_def)
  have o: "Output (example_rule 5 25) = page_output 5 25"
    "Output (example_rule 5 3) = page_output 5 3"
    by (simp_all add: example_rule_def)
  have l: "AllSeqNums \<lparr>AllSeqNums = one_to_twenty, Count = 20\<rparr> = one_to_twenty" by simp
  have t: "total_found \<lparr>AllSeqNums = one_to_twenty, Count = 20\<rparr> = 20"
    by (simp add: total_found_def)
  have big: "int (length one_to_twenty) \<le> Offset (page_output 5 25)"
    "Offset (page_output 5 3) < int (length one_to_twenty)"
    by (simp_all add: one_to_twenty_def page_output_def)
  have f: "fetch_and_assemble listing_client example_helpers (page_output 5 3) 20
             (map Num [17, 16, 15, 14, 13])
     = Inr [\<lparr>em_SeqNum = 17, em_UID = 1017, MimeParts = [], TotalCount = 20\<rparr>,
            \<lparr>em_SeqNum = 16, em_UID = 1016, MimeParts = [], TotalCount = 20\<rparr>,
            \<lparr>em_SeqNum = 15, em_UID = 1015, MimeParts = [], TotalCount = 20\<rparr>,
            \<lparr>em_SeqNum = 14, em_UID = 1014, MimeParts = [], TotalCount = 20\<rparr>,
            \<lparr>em_SeqNum = 13, em_UID = 1013, MimeParts = [], TotalCount = 20\<rparr>]"
    by (simp add: fetch_and_assemble_def server_eval)
  note p3 = select_window_page[OF n a(1,2) refl refl refl]
  note p25 = select_window_page[OF n a(3,4) refl refl refl]
  have 1: "select_window one_to_twenty (page_output 5 3)
      = Inr (Some [Num 17, Num 16, Num 15, Num 14, Num 13])"
    using p3[THEN conjunct1, rule_format, OF big(2), THEN conjunct1, unfolded w] by simp
  have 2: "sorted_wrt (\<lambda>a b. b < a) [17, 16, 15, 14, 13 :: 32 word]"
    using p3[THEN conjunct1, rule_format, OF big(2), THEN conjunct2, rule_format, OF asc,
        unfolded w] .
  have 3: "select_window one_to_twenty (page_output 5 25) = Inr None"
    using p25[THEN conjunct2, THEN conjunct1, rule_format, OF big(1)] .
  have 4: "FetchMessages example_lib listing_client example_helpers (example_rule 5 25) = Inr []"
    using p25[THEN conjunct2, THEN conjunct2, rule_format, THEN conjunct2, rule_format,
        OF conjI[OF o(1) conjI[OF example_rule_compiles[of 5 25] conjI[OF s l]]] big(1)]
    by simp
  have "FetchMessages example_lib listing_client example_helpers (example_rule 5 3)
      = fetch_and_assemble listing_client example_helpers (page_output 5 3)
          (total_found \<lparr>AllSeqNums = one_to_twenty, Count = 20\<rparr>)
          (map Num (rev (take (nat (int (length one_to_twenty) - 1 - Offset (page_output 5 3)
                - max 0 (int (length one_to_twenty) - 1 - Offset (page_output 5 3)
                          - Limit (page_output 5 3) + 1) + 1))
             (drop (nat (max 0 (int (length one_to_twenty) - 1 - Offset (page_output 5 3)
                          - Limit (page_output 5 3) + 1))) one_to_twenty))))"
    using p3[THEN conjunct2, THEN conjunct2, rule_format, THEN conjunct1, rule_format,
        OF conjI[OF o(2) conjI[OF example_rule_compiles[of 5 3] conjI[OF s l]]] big(2)] .
  then have 5: "FetchMessages example_lib listing_client example_helpers (example_rule 5 3)
     = Inr [\<lparr>em_SeqNum = 17, em_UID = 1017, MimeParts = [], TotalCount = 20\<rparr>,
            \<lparr>em_SeqNum = 16, em_UID = 1016, MimeParts = [], TotalCount = 20\<rparr>,
            \<lparr>em_SeqNum = 15, em_UID = 1015, MimeParts = [], TotalCount = 20\<rparr>,
            \<lparr>em_SeqNum = 14, em_UID = 1014, MimeParts = [], TotalCount = 20\<rparr>,
            \<lparr>em_SeqNum = 13, em_UID = 1013, MimeParts = [], TotalCount = 20\<rparr>]"
    by (simp only: w t f)
  show ?thesis using 1 2 3 4 5 by simp
qed

section \<open>A server that reports only a count\<close>

text \<open>
  The manual range for a count \<open>C\<close>, a positive limit and an offset between \<open>0\<close> and \<open>C\<close>.
\<close>

lemma manual_range_bounds:
  assumes "0 < Limit oc" "0 \<le> Offset oc" "Offset oc \<le> C"
  shows "manual_range C oc = Some (max 1 (C - Offset oc - Limit oc + 1), C - Offset oc)"
  using assms by (auto simp: manual_range_def Let_def max_def)

text \<open>
  C3. On a server that answers the search with a count of 20 and no identifier list, for
  limit 5 and offset 3: the manual range is \<open>13:17\<close> and the reconstructed list, reversed,
  is \<open>17, 16, 15, 14, 13\<close>. Step 4 then applies limit and offset to that list again,
  taking it for ascending: the sequence set of the structure fetch receives \<open>16\<close> and \<open>17\<close>
  only, and \<open>FetchMessages\<close> returns these two messages, not the five from \<open>17\<close> down to
  \<open>13\<close>.
\<close>

theorem count_only_paginates_twice:
  "manual_range 20 (page_output 5 3) = Some (13, 17)
   \<and> manual_seq_nums count_only_client 13 17 [] = Inr [17, 16, 15, 14, 13]
   \<and> select_window [17, 16, 15, 14, 13] (page_output 5 3) = Inr (Some [Num 16, Num 17])
   \<and> FetchMessages example_lib count_only_client example_helpers (example_rule 5 3)
       = Inr [\<lparr>em_SeqNum = 16, em_UID = 1016, MimeParts = [], TotalCount = 20\<rparr>,
              \<lparr>em_SeqNum = 17, em_UID = 1017, MimeParts = [], TotalCount = 20\<rparr>]"
proof -
  have r: "manual_range 20 (page_output 5 3) = Some (13, 17)"
    by (simp add: manual_range_def page_output_def)
  have k: "Suc (unat (17 :: 32 word)) - unat (13 :: 32 word) = Suc (Suc (Suc (Suc (Suc 0))))"
    by simp
  have five: "range_messages (\<lambda>n. []) 13 (Suc (Suc (Suc (Suc (Suc 0)))))
      = map (example_message (\<lambda>n. [])) [13, 14, 15, 16, 17]"
    by simp
  have "seq_entry_messages (\<lambda>n. []) (Range 13 17)
      = map (example_message (\<lambda>n. [])) [13, 14, 15, 16, 17]"
    unfolding seq_entry_messages.simps k by (rule five)
  then have m: "manual_seq_nums count_only_client 13 17 [] = Inr [17, 16, 15, 14, 13]"
    by (simp add: manual_seq_nums_def server_eval reverse_in_place.simps)
  have w: "select_window [17, 16, 15, 14, 13] (page_output 5 3) = Inr (Some [Num 16, Num 17])"
    by (simp add: select_window_def page_output_def add_nums.simps)
  have t: "total_found \<lparr>AllSeqNums = [], Count = 20\<rparr> = 20"
    by (simp add: total_found_def)
  have s: "client_Search count_only_client c o' = Inr \<lparr>AllSeqNums = [], Count = 20\<rparr>"
    for c o'
    by (simp add: count_only_client_def example_client_def)
  have o: "Output (example_rule 5 3) = page_output 5 3" by (simp add: example_rule_def)
  have f: "fetch_and_assemble count_only_client example_helpers (page_output 5 3) 20
             [Num 16, Num 17]
       = Inr [\<lparr>em_SeqNum = 16, em_UID = 1016, MimeParts = [], TotalCount = 20\<rparr>,
              \<lparr>em_SeqNum = 17, em_UID = 1017, MimeParts = [], TotalCount = 20\<rparr>]"
    by (simp add: fetch_and_assemble_def server_eval)
  have "FetchMessages example_lib count_only_client example_helpers (example_rule 5 3)
       = Inr [\<lparr>em_SeqNum = 16, em_UID = 1016, MimeParts = [], TotalCount = 20\<rparr>,
              \<lparr>em_SeqNum = 17, em_UID = 1017, MimeParts = [], TotalCount = 20\<rparr>]"
    unfolding FetchMessages_def
    by (simp add: example_rule_compiles s o t r m w f)
  then show ?thesis using r m w by simp
qed


section \<open>Assembly from the batched content\<close>

lemma build_mime_parts_present:
  "build_mime_parts contentMap seqNum mds = present_parts contentMap seqNum mds"
  by (induction mds) (auto simp: present_parts_def)

lemma present_parts_no_content:
  assumes "\<not> list_ex (\<lambda>((seqNum', path), content). seqNum' = seqNum) contentMap"
  shows "present_parts contentMap seqNum mds = []"
proof -
  have "map_of contentMap (seqNum, p) = None" for p
  proof (rule ccontr)
    assume "map_of contentMap (seqNum, p) \<noteq> None"
    then obtain c where "((seqNum, p), c) \<in> set contentMap"
      by (auto dest: map_of_SomeD)
    then show False using assms by (auto simp: list_ex_iff)
  qed
  then show ?thesis by (simp add: present_parts_def)
qed

lemma third_pass_parts:
  assumes "\<forall>msg parts. \<exists>e. NewEmailMessageFromIMAP H msg parts = Inr e \<and> MimeParts e = parts"
  shows "\<exists>res. third_pass H totalFound contentMap messagesToFetch result = Inr (result @ res)
           \<and> map MimeParts res
               = map (\<lambda>(msg, mds). present_parts contentMap (SeqNum msg) mds) messagesToFetch"
proof (induction messagesToFetch arbitrary: result)
  case Nil
  then show ?case by simp
next
  case (Cons a rest)
  obtain msg mds where a: "a = (msg, mds)" by (cases a)
  let ?parts = "if list_ex (\<lambda>((seqNum, path), content). seqNum = SeqNum msg) contentMap
                then build_mime_parts contentMap (SeqNum msg) mds else []"
  have p: "?parts = present_parts contentMap (SeqNum msg) mds"
    using present_parts_no_content[of "SeqNum msg" contentMap mds]
    by (simp add: build_mime_parts_present)
  obtain e where e: "NewEmailMessageFromIMAP H msg ?parts = Inr e" "MimeParts e = ?parts"
    using assms by blast
  obtain res where r:
    "third_pass H totalFound contentMap rest (result @ [e\<lparr>TotalCount := word_of_int totalFound\<rparr>])
       = Inr ((result @ [e\<lparr>TotalCount := word_of_int totalFound\<rparr>]) @ res)"
    "map MimeParts res = map (\<lambda>(msg, mds). present_parts contentMap (SeqNum msg) mds) rest"
    using Cons.IH by blast
  have "third_pass H totalFound contentMap (a # rest) result
      = Inr (result @ (e\<lparr>TotalCount := word_of_int totalFound\<rparr> # res))"
    using a e(1) r(1) by (simp add: Let_def)
  moreover have "map MimeParts (e\<lparr>TotalCount := word_of_int totalFound\<rparr> # res)
      = map (\<lambda>(msg, mds). present_parts contentMap (SeqNum msg) mds) (a # rest)"
    using a e(2) p r(2) by simp
  ultimately show ?case by blast
qed

text \<open>
  C4 (as amended). When the conversion of a message does not fail and keeps the parts it
  is given, the third pass returns no error, and the message of every queued entry has
  exactly one MIME part for each required entry whose \<open>(sequence number, path)\<close> key is in
  the batched content, with that content, in the order of the entries. An entry whose key
  is missing gives no part; the other parts of that message and the other messages are
  not affected.
\<close>

theorem missing_fragment_is_skipped:
  assumes "\<forall>msg parts. \<exists>e. NewEmailMessageFromIMAP H msg parts = Inr e \<and> MimeParts e = parts"
  shows "(\<exists>res. third_pass H totalFound contentMap messagesToFetch result = Inr (result @ res)
            \<and> map MimeParts res
                = map (\<lambda>(msg, mds). present_parts contentMap (SeqNum msg) mds) messagesToFetch)
         \<and> (\<forall>seqNum md mds.
               map_of contentMap (seqNum, md_Path md) = None \<longrightarrow>
                 present_parts contentMap seqNum (md # mds) = present_parts contentMap seqNum mds)
         \<and> (\<forall>seqNum md mds content.
               map_of contentMap (seqNum, md_Path md) = Some content \<longrightarrow>
                 present_parts contentMap seqNum (md # mds)
                   = make_part md content # present_parts contentMap seqNum mds)"
  using third_pass_parts[OF assms] by (simp add: present_parts_def)

lemma two_part_contents:
  "batch_fetch two_part_client example_helpers (page_output 10 0)
       [(example_message (\<lambda>n. [text_part 1, text_part 2]) 8, [text_part 1, text_part 2]),
        (example_message (\<lambda>n. [text_part 1, text_part 2]) 7, [text_part 1, text_part 2])]
     = Inr [((8, [1]), ''alpha''), ((8, [2]), ''beta''), ((7, [1]), ''hello'')]"
  by (simp add: batch_fetch_def two_part_client_def example_client_def example_helpers_def)

theorem missing_fragment_is_skipped_witness:
  "third_pass example_helpers 2
       [((8, [1]), ''alpha''), ((8, [2]), ''beta''), ((7, [1]), ''hello'')]
       [(example_message (\<lambda>n. [text_part 1, text_part 2]) 8, [text_part 1, text_part 2]),
        (example_message (\<lambda>n. [text_part 1, text_part 2]) 7, [text_part 1, text_part 2])] []
     = Inr [\<lparr>em_SeqNum = 8, em_UID = 1008,
              MimeParts = [make_part (text_part 1) ''alpha'', make_part (text_part 2) ''beta''],
              TotalCount = 2\<rparr>,
            \<lparr>em_SeqNum = 7, em_UID = 1007, MimeParts = [make_part (text_part 1) ''hello''],
              TotalCount = 2\<rparr>]
   \<and> present_parts [((8, [1]), ''alpha''), ((8, [2]), ''beta''), ((7, [1]), ''hello'')] 7
       [text_part 1, text_part 2]
     = [make_part (text_part 1) ''hello'']"
proof -
  have c: "\<forall>msg parts. \<exists>e. NewEmailMessageFromIMAP example_helpers msg parts = Inr e
              \<and> MimeParts e = parts"
    by (simp add: example_helpers_def)
  have t: "third_pass example_helpers 2
       [((8, [1]), ''alpha''), ((8, [2]), ''beta''), ((7, [1]), ''hello'')]
       [(example_message (\<lambda>n. [text_part 1, text_part 2]) 8, [text_part 1, text_part 2]),
        (example_message (\<lambda>n. [text_part 1, text_part 2]) 7, [text_part 1, text_part 2])] []
     = Inr [\<lparr>em_SeqNum = 8, em_UID = 1008,
              MimeParts = [make_part (text_part 1) ''alpha'', make_part (text_part 2) ''beta''],
              TotalCount = 2\<rparr>,
            \<lparr>em_SeqNum = 7, em_UID = 1007, MimeParts = [make_part (text_part 1) ''hello''],
              TotalCount = 2\<rparr>]"
    by (simp add: example_helpers_def example_message_def text_part_def)
  have m: "map_of [((8 :: 32 word, [1 :: int]), ''alpha''), ((8, [2]), ''beta''),
                   ((7, [1]), ''hello'')] (7, md_Path (text_part 2)) = None"
    "map_of [((8 :: 32 word, [1 :: int]), ''alpha''), ((8, [2]), ''beta''),
             ((7, [1]), ''hello'')] (7, md_Path (text_part 1)) = Some ''hello''"
    by (simp_all add: text_part_def)
  note th = missing_fragment_is_skipped[OF c,
      of 2 "[((8, [1]), ''alpha''), ((8, [2]), ''beta''), ((7, [1]), ''hello'')]" "[]" "[]"]
  have "present_parts [((8, [1]), ''alpha''), ((8, [2]), ''beta''), ((7, [1]), ''hello'')] 7
       [text_part 1, text_part 2]
     = make_part (text_part 1) ''hello''
       # present_parts [((8, [1]), ''alpha''), ((8, [2]), ''beta''), ((7, [1]), ''hello'')] 7
           [text_part 2]"
    using th[THEN conjunct2, THEN conjunct2, rule_format, OF m(2)] .
  also have "present_parts [((8, [1]), ''alpha''), ((8, [2]), ''beta''), ((7, [1]), ''hello'')] 7
           [text_part 2]
     = present_parts [((8, [1]), ''alpha''), ((8, [2]), ''beta''), ((7, [1]), ''hello'')] 7 []"
    using th[THEN conjunct2, THEN conjunct1, rule_format, OF m(1)] .
  finally show ?thesis using t by (simp add: present_parts_def)
qed

text \<open>
  C4 as stated fails. Two messages need two text parts each and the batched response lacks
  part \<open>2\<close> of message \<open>7\<close>: the message assembled for \<open>7\<close> has the one part \<open>hello\<close> and no
  part with an empty content, message \<open>8\<close> has its two parts, and no error is returned.
\<close>

theorem missing_fragment_no_empty_part:
  "FetchMessages example_lib two_part_client example_helpers (example_rule 10 0)
     = Inr [\<lparr>em_SeqNum = 8, em_UID = 1008,
              MimeParts = [make_part (text_part 1) ''alpha'', make_part (text_part 2) ''beta''],
              TotalCount = 2\<rparr>,
            \<lparr>em_SeqNum = 7, em_UID = 1007, MimeParts = [make_part (text_part 1) ''hello''],
              TotalCount = 2\<rparr>]
   \<and> map part_Content [make_part (text_part 1) ''hello''] = [''hello'']"
proof -
  have w: "select_window [7, 8] (page_output 10 0) = Inr (Some [Num 8, Num 7])"
    by (simp add: select_window_def page_output_def add_nums.simps)
  have t: "total_found \<lparr>AllSeqNums = [7, 8], Count = 2\<rparr> = 2"
    by (simp add: total_found_def)
  have f: "fetch_and_assemble two_part_client example_helpers (page_output 10 0) 2 [Num 8, Num 7]
     = Inr [\<lparr>em_SeqNum = 8, em_UID = 1008,
              MimeParts = [make_part (text_part 1) ''alpha'', make_part (text_part 2) ''beta''],
              TotalCount = 2\<rparr>,
            \<lparr>em_SeqNum = 7, em_UID = 1007, MimeParts = [make_part (text_part 1) ''hello''],
              TotalCount = 2\<rparr>]"
    by (simp add: fetch_and_assemble_def batch_fetch_def two_part_client_def example_client_def
          example_helpers_def example_message_def text_part_def make_part_def)
  have s: "client_Search two_part_client c o' = Inr \<lparr>AllSeqNums = [7, 8], Count = 2\<rparr>" for c o'
    by (simp add: two_part_client_def example_client_def)
  have o: "Output (example_rule 10 0) = page_output 10 0" by (simp add: example_rule_def)
  have "FetchMessages example_lib two_part_client example_helpers (example_rule 10 0)
      = fetch_and_assemble two_part_client example_helpers (page_output 10 0) 2 [Num 8, Num 7]"
    unfolding FetchMessages_def
    by (simp add: example_rule_compiles s t o w)
  then show ?thesis using f by (simp add: make_part_def)
qed


end
